theory Spec2Isabelle
  imports Main "HOL-Library.Word"
begin

unbundle bit_operations_syntax

section \<open>Request values and the JavaScript helpers the handlers rely on\<close>

text \<open>
  The handlers of \<^verbatim>\<open>server.js\<close> receive JSON body fields and URL parameters and coerce
  them with \<^verbatim>\<open>parseInt(x, 10)\<close>, \<^verbatim>\<open>typeof x === "string"\<close>, \<^verbatim>\<open>x.trim()\<close> and
  truthiness tests.

  A JavaScript string is a sequence of 16-bit code units; \<open>js\<close> embeds a literal of this
  theory. A body field is a \<open>jsval\<close>; \<open>JUndefined\<close> is an absent field. \<open>JNum n\<close> is
  a number that is an integer from \<open>- 2 ^ 53\<close> up to \<open>2 ^ 53 - 1\<close>, read with \<open>sint\<close>;
  these are numbers that the runtime renders as plain decimal digits. Any other number
  of a request appears as the string of its rendering (\<open>JStr (js ''1.5'')\<close>), which is
  all that \<^verbatim>\<open>parseInt\<close> sees of it.
\<close>

type_synonym jsstring = "16 word list"

definition js :: "string \<Rightarrow> jsstring" where
  "js s = map of_char s"

datatype jsval = JUndefined | JNull | JBool bool | JNum "54 word" | JStr jsstring

definition truthy :: "jsval \<Rightarrow> bool" where
  "truthy v =
     (case v of
        JUndefined \<Rightarrow> False
      | JNull \<Rightarrow> False
      | JBool b \<Rightarrow> b
      | JNum n \<Rightarrow> n \<noteq> 0
      | JStr s \<Rightarrow> s \<noteq> [])"

text \<open>
  The white space of ECMAScript, which \<^verbatim>\<open>String.prototype.trim\<close> strips from both ends
  and \<^verbatim>\<open>parseInt\<close> skips at the start: the code points of \<^verbatim>\<open>WhiteSpace\<close> and of
  \<^verbatim>\<open>LineTerminator\<close>.
\<close>

definition isWhite :: "16 word \<Rightarrow> bool" where
  "isWhite c =
     (c \<in> set [0x0009, 0x000A, 0x000B, 0x000C, 0x000D, 0x0020, 0x00A0, 0x1680,
               0x2000, 0x2001, 0x2002, 0x2003, 0x2004, 0x2005, 0x2006, 0x2007,
               0x2008, 0x2009, 0x200A, 0x2028, 0x2029, 0x202F, 0x205F, 0x3000,
               0xFEFF])"

definition trim :: "jsstring \<Rightarrow> jsstring" where
  "trim s = rev (dropWhile isWhite (rev (dropWhile isWhite s)))"

definition isDigit :: "16 word \<Rightarrow> bool" where
  "isDigit c = (0x30 \<le> c \<and> c \<le> 0x39)"

definition digitValue :: "16 word \<Rightarrow> nat" where
  "digitValue c = unat c - 48"

definition digitsValue :: "jsstring \<Rightarrow> nat" where
  "digitsValue ds = foldl (\<lambda>a c. 10 * a + digitValue c) 0 ds"

text \<open>
  The numbers the handlers compute with are integers held in double precision. A result
  is \<open>Fin n\<close>, a finite double whose value is the integer \<open>n\<close>, or an infinity.
  \<open>toDouble i\<close> is the double nearest to the integer \<open>i\<close>, ties going to the even
  significand: \<open>excess n\<close> is the number of low bits of \<open>n\<close> that do not fit into the 53
  bits of a significand, \<open>roundNat\<close> rounds them away, and a rounded magnitude of
  \<open>2 ^ 1024\<close> or more is an infinity. Integers below \<open>2 ^ 53\<close> in magnitude are kept as
  they are.
\<close>

datatype jsnum = Fin int | PosInfinity | NegInfinity

fun excess :: "nat \<Rightarrow> nat" where
  "excess n = (if n < 2 ^ 53 then 0 else Suc (excess (n div 2)))"

declare excess.simps [simp del]

definition roundNat :: "nat \<Rightarrow> nat" where
  "roundNat n =
     (let e = excess n; q = n div 2 ^ e; r = n mod 2 ^ e
      in if 2 ^ e < 2 * r \<or> (2 ^ e = 2 * r \<and> odd q) then (q + 1) * 2 ^ e else q * 2 ^ e)"

definition toDouble :: "int \<Rightarrow> jsnum" where
  "toDouble i =
     (let m = roundNat (nat \<bar>i\<bar>)
      in if 2 ^ 1024 \<le> m then (if i < 0 then NegInfinity else PosInfinity)
         else Fin (if i < 0 then - int m else int m))"

definition isFin :: "jsnum \<Rightarrow> bool" where
  "isFin x = (case x of Fin _ \<Rightarrow> True | _ \<Rightarrow> False)"

text \<open>
  \<^verbatim>\<open>x * k\<close> for a positive constant \<open>k\<close>, and \<^verbatim>\<open>a + x\<close> for a finite \<open>a\<close>: the exact
  result rounded to a double, an infinity staying what it is.
\<close>

definition timesD :: "jsnum \<Rightarrow> int \<Rightarrow> jsnum" where
  "timesD x k =
     (case x of Fin a \<Rightarrow> toDouble (a * k) | PosInfinity \<Rightarrow> PosInfinity | NegInfinity \<Rightarrow> NegInfinity)"

definition plusD :: "int \<Rightarrow> jsnum \<Rightarrow> jsnum" where
  "plusD a x =
     (case x of Fin b \<Rightarrow> toDouble (a + b) | PosInfinity \<Rightarrow> PosInfinity | NegInfinity \<Rightarrow> NegInfinity)"

text \<open>
  The expression \<^verbatim>\<open>x + minutes * 60 * 1000\<close> of the book handler (\<open>x\<close> is
  \<^verbatim>\<open>Date.now()\<close>) and of the extend handler (\<open>x\<close> is \<^verbatim>\<open>room.endTime\<close>), evaluated from
  left to right as the runtime does.
\<close>

definition addMinutes :: "int \<Rightarrow> int \<Rightarrow> jsnum" where
  "addMinutes x minutes = plusD x (timesD (timesD (Fin minutes) 60) 1000)"

text \<open>
  What \<^verbatim>\<open>JSON.stringify\<close> keeps of a number, in the data file and in a response: a
  finite number as it is, an infinity as \<^verbatim>\<open>null\<close>. No statement of the source tells
  a \<^verbatim>\<open>null\<close> field from a missing one, so both are \<open>None\<close>.
\<close>

definition stored :: "jsnum \<Rightarrow> int option" where
  "stored x = (case x of Fin n \<Rightarrow> Some n | _ \<Rightarrow> None)"

text \<open>
  \<^verbatim>\<open>parseInt(s, 10)\<close> on a string: skip leading white space, read an optional sign,
  then the longest prefix of decimal digits; whatever follows the digits is ignored. The
  result is the double nearest to the integer the digits denote (beyond 20 significant
  digits the standard lets an implementation approximate it; the model takes the nearest
  double). \<open>None\<close> stands for the three results that \<^verbatim>\<open>Number.isInteger\<close> rejects and
  that equal no room id: \<^verbatim>\<open>NaN\<close> when there is no digit, and the two infinities.
\<close>

definition parseIntStr :: "jsstring \<Rightarrow> int option" where
  "parseIntStr s =
     (let t = dropWhile isWhite s;
          neg = (case t of [] \<Rightarrow> False | c # _ \<Rightarrow> c = 0x2D);
          u = (case t of [] \<Rightarrow> [] | c # r \<Rightarrow> if c = 0x2D \<or> c = 0x2B then r else t);
          ds = takeWhile isDigit u
      in if ds = [] then None
         else stored (toDouble (if neg then - int (digitsValue ds) else int (digitsValue ds))))"

fun showNat :: "nat \<Rightarrow> string" where
  "showNat n =
     (if n < 10 then [''0123456789'' ! n]
      else showNat (n div 10) @ [''0123456789'' ! (n mod 10)])"

declare showNat.simps [simp del]

definition showInt :: "int \<Rightarrow> string" where
  "showInt n = (if n < 0 then CHR ''-'' # showNat (nat (- n)) else showNat (nat n))"

definition toString :: "jsval \<Rightarrow> jsstring" where
  "toString v =
     (case v of
        JUndefined \<Rightarrow> js ''undefined''
      | JNull \<Rightarrow> js ''null''
      | JBool b \<Rightarrow> js (if b then ''true'' else ''false'')
      | JNum n \<Rightarrow> js (showInt (sint n))
      | JStr s \<Rightarrow> s)"

text \<open>\<^verbatim>\<open>parseInt(v, 10)\<close> converts its argument to a string first.\<close>

definition parseInt :: "jsval \<Rightarrow> int option" where
  "parseInt v = parseIntStr (toString v)"

text \<open>\<^verbatim>\<open>typeof v !== "string" || !v.trim()\<close> is the negation of this test.\<close>

definition nonBlankString :: "jsval \<Rightarrow> bool" where
  "nonBlankString v = (case v of JStr s \<Rightarrow> trim s \<noteq> [] | _ \<Rightarrow> False)"

text \<open>\<^verbatim>\<open>crypto.randomBytes(4).toString("hex")\<close>: two lowercase hex digits per byte.\<close>

definition hexDigit :: "nat \<Rightarrow> char" where
  "hexDigit n = ''0123456789abcdef'' ! n"

definition byteHex :: "8 word \<Rightarrow> string" where
  "byteHex b = [hexDigit (unat b div 16), hexDigit (unat b mod 16)]"

definition toHex :: "8 word list \<Rightarrow> string" where
  "toHex bs = concat (map byteHex bs)"

text \<open>The pattern \<^verbatim>\<open>^[a-f0-9]{8}$\<close>.\<close>

definition matchesHex8 :: "string \<Rightarrow> bool" where
  "matchesHex8 s = (length s = 8 \<and> list_all (\<lambda>c. c \<in> set ''0123456789abcdef'') s)"

section \<open>Rooms and the room store\<close>

text \<open>
  A room of \<^verbatim>\<open>rooms.json\<close>. The four occupancy fields are optional: \<^verbatim>\<open>delete r.f\<close>
  is \<open>f := None\<close>. The public projection is the room without \<open>bookingCode\<close>, so the
  room record extends it by that one field.
\<close>

record public_room =
  id' :: int
  name :: jsstring
  status :: jsstring
  bookedBy :: "jsstring option"
  purpose :: "jsstring option"
  endTime :: "int option"

record room = public_room +
  bookingCode :: "jsstring option"

text \<open>
  The process state: the content of the data file (\<open>None\<close> when it is missing or does
  not parse), the \<^verbatim>\<open>autoReleaseTimers\<close> map from room id to timer handle, and the timeouts
  the runtime holds pending, each with the room id its callback closes over and the
  instant it is due. The data file is taken to be writable: \<open>writeRooms\<close> always
  succeeds. A handler runs to completion at one instant \<open>now\<close>, which every
  \<^verbatim>\<open>Date.now()\<close> of that run returns. Room ids and end times of the data file are
  integers.
\<close>

record timeout =
  handle :: nat
  forRoom :: int
  due :: int

record world =
  dataFile :: "room list option"
  autoReleaseTimers :: "int \<rightharpoonup> nat"
  pendingTimeouts :: "timeout list"
  nextHandle :: nat

definition readRooms :: "world \<Rightarrow> room list" where
  "readRooms w = (case dataFile w of None \<Rightarrow> [] | Some rooms \<Rightarrow> rooms)"

definition writeRooms :: "room list \<Rightarrow> world \<Rightarrow> world" where
  "writeRooms rooms w = w\<lparr>dataFile := Some rooms\<rparr>"

text \<open>
  The block \<^verbatim>\<open>r.status = "Available"; delete r.bookedBy; delete r.purpose;
  delete r.endTime; delete r.bookingCode\<close>, which the source repeats at every expiry and
  at release.
\<close>

definition makeAvailable :: "room \<Rightarrow> room" where
  "makeAvailable r =
     r\<lparr>status := js ''Available'', bookedBy := None, purpose := None,
       endTime := None, bookingCode := None\<rparr>"

text \<open>\<^verbatim>\<open>r.endTime && now >= r.endTime\<close>: an absent or zero end time is falsy.\<close>

definition endTimePassed :: "int \<Rightarrow> room \<Rightarrow> bool" where
  "endTimePassed now r = (case endTime r of None \<Rightarrow> False | Some t \<Rightarrow> t \<noteq> 0 \<and> now \<ge> t)"

definition endTimeSet :: "room \<Rightarrow> bool" where
  "endTimeSet r = (case endTime r of None \<Rightarrow> False | Some t \<Rightarrow> t \<noteq> 0)"

text \<open>The loop of \<^verbatim>\<open>expireRoomsIfNeeded\<close>, with its \<^verbatim>\<open>changed\<close> flag.\<close>

fun expireLoop :: "int \<Rightarrow> room list \<Rightarrow> bool \<Rightarrow> room list \<times> bool" where
  "expireLoop now [] changed = ([], changed)"
| "expireLoop now (r # rs) changed =
     (if endTimePassed now r
      then (case expireLoop now rs True of (rs', c) \<Rightarrow> (makeAvailable r # rs', c))
      else (case expireLoop now rs changed of (rs', c) \<Rightarrow> (r # rs', c)))"

definition expireRoomsIfNeeded :: "int \<Rightarrow> room list \<Rightarrow> world \<Rightarrow> room list \<times> world" where
  "expireRoomsIfNeeded now rooms w =
     (case expireLoop now rooms False of
        (rooms', changed) \<Rightarrow> (rooms', if changed then writeRooms rooms' w else w))"

text \<open>
  \<^verbatim>\<open>const { bookingCode, ...rest } = room; return rest\<close>. The handlers call it on a room
  they have found, so its guard for a missing room is never taken.
\<close>

definition sanitizeRoom :: "room \<Rightarrow> public_room" where
  "sanitizeRoom r = public_room.truncate r"

text \<open>
  A handler mutates the object that \<^verbatim>\<open>rooms.find\<close> returned, which is the first
  matching element of the array it then writes back.
\<close>

fun updateFound :: "(room \<Rightarrow> bool) \<Rightarrow> (room \<Rightarrow> room) \<Rightarrow> room list \<Rightarrow> room list" where
  "updateFound p f [] = []"
| "updateFound p f (r # rs) = (if p r then f r # rs else r # updateFound p f rs)"

section \<open>The proactive expiry timers\<close>

text \<open>
  \<^verbatim>\<open>setTimeout(callback, delay)\<close> of the runtime: it returns a new handle and holds the
  callback pending. The runtime replaces a delay that is below 1 or above
  \<open>2 ^ 31 - 1\<close> milliseconds by 1. \<^verbatim>\<open>clearTimeout\<close> drops the pending timeout with the
  given handle, and does nothing for a handle that has fired already. The delay
  \<^verbatim>\<open>r.endTime - Date.now()\<close> is used for its sign and as the argument of
  \<^verbatim>\<open>setTimeout\<close>; rounding it to a double changes neither, since a difference that is
  not exact is far above \<open>2 ^ 31 - 1\<close>.
\<close>

definition setTimeout :: "int \<Rightarrow> int \<Rightarrow> int \<Rightarrow> world \<Rightarrow> nat \<times> world" where
  "setTimeout now roomId delay w =
     (let h = nextHandle w;
          after = (if 1 \<le> delay \<and> delay \<le> 2147483647 then delay else 1)
      in (h, w\<lparr>pendingTimeouts :=
                  pendingTimeouts w @ [\<lparr>handle = h, forRoom = roomId, due = now + after\<rparr>],
                nextHandle := Suc h\<rparr>))"

definition clearTimeout :: "nat \<Rightarrow> world \<Rightarrow> world" where
  "clearTimeout h w = w\<lparr>pendingTimeouts := filter (\<lambda>t. handle t \<noteq> h) (pendingTimeouts w)\<rparr>"

definition scheduleAutoRelease :: "int \<Rightarrow> int \<Rightarrow> world \<Rightarrow> world" where
  "scheduleAutoRelease now roomId w =
     (let w1 = (case autoReleaseTimers w roomId of
                  None \<Rightarrow> w
                | Some h \<Rightarrow> (clearTimeout h w)\<lparr>autoReleaseTimers := (autoReleaseTimers w)(roomId := None)\<rparr>);
          rooms = readRooms w1
      in case find (\<lambda>x. id' x = roomId) rooms of
           None \<Rightarrow> w1
         | Some r \<Rightarrow>
             (case endTime r of
                None \<Rightarrow> w1
              | Some t \<Rightarrow>
                  if status r \<noteq> js ''Occupied'' \<or> t = 0 then w1
                  else if t - now \<le> 0
                  then writeRooms (updateFound (\<lambda>x. id' x = roomId) makeAvailable rooms) w1
                  else (case setTimeout now roomId (t - now) w1 of
                          (h, w2) \<Rightarrow> w2\<lparr>autoReleaseTimers := (autoReleaseTimers w2)(roomId \<mapsto> h)\<rparr>)))"

text \<open>
  The callback that \<^verbatim>\<open>scheduleAutoRelease\<close> hands to \<^verbatim>\<open>setTimeout\<close>, run at the instant
  \<open>now\<close>. Its last statement, \<^verbatim>\<open>autoReleaseTimers.delete(roomId)\<close>, runs on every path.
\<close>

definition autoReleaseCallback :: "int \<Rightarrow> int \<Rightarrow> world \<Rightarrow> world" where
  "autoReleaseCallback now roomId w =
     (let currentRooms = readRooms w;
          w1 = (case find (\<lambda>x. id' x = roomId) currentRooms of
                  None \<Rightarrow> w
                | Some current \<Rightarrow>
                    (case endTime current of
                       None \<Rightarrow> w
                     | Some t \<Rightarrow>
                         if status current = js ''Occupied'' \<and> t \<noteq> 0
                         then (if now \<ge> t
                               then writeRooms
                                      (updateFound (\<lambda>x. id' x = roomId) makeAvailable currentRooms) w
                               else scheduleAutoRelease now roomId w)
                         else w))
      in w1\<lparr>autoReleaseTimers := (autoReleaseTimers w1)(roomId := None)\<rparr>)"

text \<open>The runtime fires the pending timeout \<open>h\<close>: it stops being pending and its callback runs.\<close>

definition fireTimeout :: "int \<Rightarrow> nat \<Rightarrow> world \<Rightarrow> world" where
  "fireTimeout now h w =
     (case find (\<lambda>t. handle t = h) (pendingTimeouts w) of
        None \<Rightarrow> w
      | Some t \<Rightarrow> autoReleaseCallback now (forRoom t) (clearTimeout h w))"

text \<open>The block run at server start, over the rooms read once at its beginning.\<close>

definition startup :: "int \<Rightarrow> world \<Rightarrow> world" where
  "startup now w =
     fold (\<lambda>r w'. if status r = js ''Occupied'' \<and> endTimeSet r
                  then scheduleAutoRelease now (id' r) w' else w')
          (readRooms w) w"

section \<open>The request handlers\<close>

text \<open>
  A response is the HTTP status with the JSON body. \<open>Booked\<close> is the body of a
  successful booking (message, public room, booking code), \<open>Changed\<close> that of a
  successful release or extension (message, public room).
\<close>

datatype body =
    Message string
  | Rooms "(public_room \<times> string) list"
  | Room public_room
  | Booked string public_room string
  | Changed string public_room

datatype response = Response nat body

text \<open>
  \<^verbatim>\<open>GET /api/rooms\<close>. The QR image of a room is made by an external library from the
  base URL and the room id; it is the parameter \<open>qr\<close>.
\<close>

definition listRooms :: "(int \<Rightarrow> string) \<Rightarrow> int \<Rightarrow> world \<Rightarrow> response \<times> world" where
  "listRooms qr now w =
     (case expireRoomsIfNeeded now (readRooms w) w of
        (rooms, w1) \<Rightarrow> (Response 200 (Rooms (map (\<lambda>r. (sanitizeRoom r, qr (id' r))) rooms)), w1))"

text \<open>\<^verbatim>\<open>GET /api/room/:id\<close>.\<close>

definition getRoom :: "jsstring \<Rightarrow> int \<Rightarrow> world \<Rightarrow> response \<times> world" where
  "getRoom idParam now w =
     (case expireRoomsIfNeeded now (readRooms w) w of
        (rooms, w1) \<Rightarrow>
          (case find (\<lambda>r. Some (id' r) = parseIntStr idParam) rooms of
             None \<Rightarrow> (Response 404 (Message ''Room not found''), w1)
           | Some room \<Rightarrow> (Response 200 (Room (sanitizeRoom room)), w1)))"

text \<open>
  \<^verbatim>\<open>POST /api/book\<close>, handled at the instant \<open>now\<close>; \<open>rnd\<close> is what
  \<^verbatim>\<open>crypto.randomBytes(4)\<close> returns.
\<close>

definition book ::
  "int \<Rightarrow> 8 word list \<Rightarrow> jsval \<Rightarrow> jsval \<Rightarrow> jsval \<Rightarrow> jsval \<Rightarrow> world \<Rightarrow> response \<times> world" where
  "book now rnd roomIdField studentName purposeField durationField w =
     (case (parseInt roomIdField, parseInt durationField) of
        (Some roomId, Some duration) \<Rightarrow>
          if duration \<le> 0 then (Response 400 (Message ''Invalid roomId or duration''), w)
          else if \<not> nonBlankString studentName \<or> \<not> nonBlankString purposeField
          then (Response 400 (Message ''Invalid studentName or purpose''), w)
          else
            (case expireRoomsIfNeeded now (readRooms w) w of
               (rooms, w1) \<Rightarrow>
                 (case find (\<lambda>r. id' r = roomId) rooms of
                    None \<Rightarrow> (Response 404 (Message ''Room not found''), w1)
                  | Some room \<Rightarrow>
                      if status room = js ''Occupied''
                      then (Response 400 (Message ''Room already booked''), w1)
                      else
                        (let endT = addMinutes now duration;
                             code = toHex rnd;
                             room' = room\<lparr>status := js ''Occupied'',
                                          bookedBy := Some (trim (toString studentName)),
                                          purpose := Some (trim (toString purposeField)),
                                          endTime := stored endT,
                                          bookingCode := Some (js code)\<rparr>;
                             w2 = writeRooms (updateFound (\<lambda>r. id' r = roomId) (\<lambda>_. room') rooms) w1;
                             w3 = scheduleAutoRelease now roomId w2
                         in (Response 200
                               (Booked ''Room booked successfully! Save your booking code.''
                                  (sanitizeRoom room') code), w3))))
      | _ \<Rightarrow> (Response 400 (Message ''Invalid roomId or duration''), w))"

text \<open>
  \<^verbatim>\<open>POST /api/room/:id/release\<close>. The rooms come from \<open>readRooms\<close> directly.
  \<^verbatim>\<open>room.bookingCode !== bookingCode\<close> is strict: only a string equal to the stored
  code passes. The room was found by \<^verbatim>\<open>r.id === id\<close>, so the \<^verbatim>\<open>id\<close> used for the
  timer table afterwards is \<open>id' room\<close>; the same holds in the extend handler.
\<close>

definition release :: "jsstring \<Rightarrow> jsval \<Rightarrow> world \<Rightarrow> response \<times> world" where
  "release idParam codeField w =
     (if \<not> truthy codeField then (Response 400 (Message ''bookingCode required''), w)
      else
        (let rooms = readRooms w in
         case find (\<lambda>r. Some (id' r) = parseIntStr idParam) rooms of
           None \<Rightarrow> (Response 404 (Message ''Room not found''), w)
         | Some room \<Rightarrow>
             if status room \<noteq> js ''Occupied''
             then (Response 400 (Message ''Room is not occupied''), w)
             else if map_option JStr (bookingCode room) \<noteq> Some codeField
             then (Response 403 (Message ''Invalid booking code''), w)
             else
               (let room' = makeAvailable room;
                    w1 = writeRooms
                           (updateFound (\<lambda>r. Some (id' r) = parseIntStr idParam) (\<lambda>_. room') rooms) w;
                    w2 = (case autoReleaseTimers w1 (id' room) of
                            None \<Rightarrow> w1
                          | Some h \<Rightarrow>
                              (clearTimeout h w1)\<lparr>autoReleaseTimers :=
                                                    (autoReleaseTimers w1)(id' room := None)\<rparr>)
                in (Response 200 (Changed ''Room released successfully'' (sanitizeRoom room')), w2))))"

text \<open>\<^verbatim>\<open>POST /api/room/:id/extend\<close>, handled at the instant \<open>now\<close>.\<close>

definition extend :: "int \<Rightarrow> jsstring \<Rightarrow> jsval \<Rightarrow> jsval \<Rightarrow> world \<Rightarrow> response \<times> world" where
  "extend now idParam codeField extraField w =
     (if \<not> truthy codeField then (Response 400 (Message ''bookingCode required''), w)
      else
        (case parseInt extraField of
           None \<Rightarrow> (Response 400 (Message ''extraMinutes must be a positive integer''), w)
         | Some extraMinutes \<Rightarrow>
             if extraMinutes \<le> 0
             then (Response 400 (Message ''extraMinutes must be a positive integer''), w)
             else
               (case expireRoomsIfNeeded now (readRooms w) w of
                  (rooms, w1) \<Rightarrow>
                    (case find (\<lambda>r. Some (id' r) = parseIntStr idParam) rooms of
                       None \<Rightarrow> (Response 404 (Message ''Room not found''), w1)
                     | Some room \<Rightarrow>
                         if status room \<noteq> js ''Occupied'' \<or> \<not> endTimeSet room
                         then (Response 400 (Message ''Room is not currently occupied''), w1)
                         else if map_option JStr (bookingCode room) \<noteq> Some codeField
                         then (Response 403 (Message ''Invalid booking code''), w1)
                         else
                           (let room' = room\<lparr>endTime :=
                                               (case endTime room of
                                                  None \<Rightarrow> None
                                                | Some t \<Rightarrow> stored (addMinutes t extraMinutes))\<rparr>;
                                w2 = writeRooms
                                       (updateFound (\<lambda>r. Some (id' r) = parseIntStr idParam)
                                          (\<lambda>_. room') rooms) w1;
                                w3 = scheduleAutoRelease now (id' room) w2
                            in (Response 200
                                  (Changed (''Extended by '' @ showInt extraMinutes @ '' minutes'')
                                     (sanitizeRoom room')), w3))))))"

section \<open>Properties and example states\<close>

text \<open>
  Strict co-presence of the occupancy fields with the status, for one room and for the
  whole data file.
\<close>

definition copresent :: "room \<Rightarrow> bool" where
  "copresent r =
     (((status r = js ''Occupied'') =
         (bookedBy r \<noteq> None \<and> purpose r \<noteq> None \<and> endTime r \<noteq> None \<and> bookingCode r \<noteq> None))
      \<and> ((status r = js ''Available'') =
         (bookedBy r = None \<and> purpose r = None \<and> endTime r = None \<and> bookingCode r = None)))"

definition storeInv :: "world \<Rightarrow> bool" where
  "storeInv w = list_all copresent (readRooms w)"

text \<open>The public room that a response embeds, if it embeds one.\<close>

definition embeddedRoom :: "response \<Rightarrow> public_room option" where
  "embeddedRoom res =
     (case res of
        Response _ (Booked _ p _) \<Rightarrow> Some p
      | Response _ (Changed _ p) \<Rightarrow> Some p
      | Response _ (Room p) \<Rightarrow> Some p
      | _ \<Rightarrow> None)"

text \<open>
  The spec's wording for a duration or an extension: the value is an integer, that is a
  number of the model or a string that is, after trimming, an optional sign followed
  by decimal digits only.
\<close>

definition denotesInteger :: "jsval \<Rightarrow> bool" where
  "denotesInteger v =
     (case v of
        JNum n \<Rightarrow> True
      | JStr s \<Rightarrow>
          (let t = trim s;
               u = (case t of [] \<Rightarrow> [] | c # r \<Rightarrow> if c = 0x2D \<or> c = 0x2B then r else t)
           in u \<noteq> [] \<and> list_all isDigit u)
      | _ \<Rightarrow> False)"

text \<open>
  States used as concrete inputs: a data file with two free rooms, one where room 5 is
  booked until the instant 600000 with its timer pending, and an unreadable data file.
\<close>

definition lounge :: room where
  "lounge = \<lparr>id' = 3, name = js ''Lounge'', status = js ''Available'', bookedBy = None,
              purpose = None, endTime = None, bookingCode = None\<rparr>"

definition studyRoom :: room where
  "studyRoom = \<lparr>id' = 5, name = js ''Study room'', status = js ''Available'', bookedBy = None,
                 purpose = None, endTime = None, bookingCode = None\<rparr>"

definition freeWorld :: world where
  "freeWorld = \<lparr>dataFile = Some [lounge, studyRoom], autoReleaseTimers = Map.empty,
                 pendingTimeouts = [], nextHandle = 0\<rparr>"

definition bookedRoom :: room where
  "bookedRoom = \<lparr>id' = 5, name = js ''Study room'', status = js ''Occupied'',
                  bookedBy = Some (js ''Ann''),
                  purpose = Some (js ''study''), endTime = Some 600000,
                  bookingCode = Some (js ''deadbeef'')\<rparr>"

definition bookedWorld :: world where
  "bookedWorld = \<lparr>dataFile = Some [lounge, bookedRoom], autoReleaseTimers = [5 \<mapsto> 0],
                   pendingTimeouts = [\<lparr>handle = 0, forRoom = 5, due = 600000\<rparr>],
                   nextHandle = 1\<rparr>"

definition unreadableWorld :: world where
  "unreadableWorld = \<lparr>dataFile = None, autoReleaseTimers = Map.empty,
                       pendingTimeouts = [], nextHandle = 0\<rparr>"


definition overflowWorld :: world where
  "overflowWorld = \<lparr>dataFile = Some [lounge, bookedRoom\<lparr>endTime := None\<rparr>],
                     autoReleaseTimers = Map.empty, pendingTimeouts = [], nextHandle = 0\<rparr>"

text \<open>
  A booking of 40000 minutes made at the instant 0, the firing of its timer at the
  instant 1, and an extension handled right after.
\<close>

definition longBooking :: world where
  "longBooking = snd (book 0 [0xde, 0xad, 0xbe, 0xef] (JNum 5) (JStr (js ''Ann'')) (JStr (js ''study'')) (JNum 40000) freeWorld)"

definition afterEarlyFire :: world where
  "afterEarlyFire = fireTimeout 1 0 longBooking"

definition afterExtend :: world where
  "afterExtend = snd (extend 1 (js ''5'') (JStr (js ''deadbeef'')) (JNum 10) afterEarlyFire)"

section \<open>Strings and double precision\<close>

lemma unat_of_char16: "unat (of_char c :: 16 word) = of_char c"
proof -
  have "(of_char c :: 16 word) = of_nat (of_char c)"
    by (simp only: of_nat_of_char)
  moreover have "(of_char c :: nat) < 65536"
    using nat_of_char_less_256 [of c] by linarith
  ultimately show ?thesis
    by (simp add: unat_of_nat)
qed

lemma of_char16_eq_iff: "(of_char c :: 16 word) = of_char d \<longleftrightarrow> c = d"
proof
  assume "(of_char c :: 16 word) = of_char d"
  then have "unat (of_char c :: 16 word) = unat (of_char d :: 16 word)" by simp
  then have "(of_char c :: nat) = of_char d" by (simp add: unat_of_char16)
  then have "char_of (of_char c :: nat) = char_of (of_char d :: nat)" by simp
  then show "c = d" by simp
qed simp

lemma js_eq_iff [simp]: "js a = js b \<longleftrightarrow> a = b"
proof (induction a arbitrary: b)
  case Nil
  show ?case by (cases b) (simp_all add: js_def)
next
  case (Cons x xs)
  show ?case
  proof (cases b)
    case Nil
    then show ?thesis by (simp add: js_def)
  next
    case (Cons y ys)
    then show ?thesis
      using Cons.IH [of ys] by (simp add: js_def of_char16_eq_iff)
  qed
qed

lemma js_Nil_iff [simp]: "js s = [] \<longleftrightarrow> s = []"
  by (simp add: js_def)

lemma length_js [simp]: "length (js s) = length s"
  by (simp add: js_def)

lemma excess_small: "n < 2 ^ 53 \<Longrightarrow> excess n = 0"
  by (simp add: excess.simps)

lemma roundNat_small: "n < 2 ^ 53 \<Longrightarrow> roundNat n = n"
  by (simp add: roundNat_def excess_small)

lemma toDouble_exact: "\<bar>i\<bar> < 2 ^ 53 \<Longrightarrow> toDouble i = Fin i"
proof -
  assume a: "\<bar>i\<bar> < 2 ^ 53"
  then have "nat \<bar>i\<bar> < 2 ^ 53"
    by (simp add: nat_less_iff)
  then have r: "roundNat (nat \<bar>i\<bar>) = nat \<bar>i\<bar>"
    by (rule roundNat_small)
  have "nat \<bar>i\<bar> < 2 ^ 1024"
    using \<open>nat \<bar>i\<bar> < 2 ^ 53\<close> by (rule less_trans) simp
  then show ?thesis
    by (auto simp: toDouble_def r Let_def)
qed








lemma addMinutes_exact:
  assumes "0 < m" and "0 \<le> x" and "x + m * 60000 < 2 ^ 53"
  shows "addMinutes x m = Fin (x + m * 60000)"
proof -
  have a: "\<bar>m * 60\<bar> < 2 ^ 53" using assms by simp
  have b: "\<bar>m * 60 * 1000\<bar> < 2 ^ 53" using assms by simp
  have c: "\<bar>x + m * 60 * 1000\<bar> < 2 ^ 53" using assms by simp
  have "addMinutes x m = Fin (x + m * 60 * 1000)"
    by (simp only: addMinutes_def timesD_def plusD_def jsnum.case toDouble_exact [OF a]
          toDouble_exact [OF b] toDouble_exact [OF c])
  then show ?thesis by simp
qed

section \<open>Lazy expiry\<close>

lemma expireLoop_eq:
  "expireLoop now rs c =
     (map (\<lambda>r. if endTimePassed now r then makeAvailable r else r) rs,
      c \<or> list_ex (endTimePassed now) rs)"
  by (induction rs arbitrary: c) simp_all

lemma expireLoop_fst:
  "fst (expireLoop now rs c) = map (\<lambda>r. if endTimePassed now r then makeAvailable r else r) rs"
  by (simp add: expireLoop_eq)

lemma expireLoop_snd:
  "snd (expireLoop now rs c) = (c \<or> list_ex (endTimePassed now) rs)"
  by (simp add: expireLoop_eq)

lemma makeAvailable_not_passed [simp]: "\<not> endTimePassed now (makeAvailable r)"
  by (simp add: endTimePassed_def makeAvailable_def)

lemma expired_none_passed:
  "r \<in> set (fst (expireLoop now rs c)) \<Longrightarrow> \<not> endTimePassed now r"
  by (auto simp: expireLoop_fst)

lemma expireLoop_fixed:
  "\<forall>r \<in> set rs. \<not> endTimePassed now r \<Longrightarrow> expireLoop now rs c = (rs, c)"
  by (induction rs arbitrary: c) auto

lemma expireLoop_again:
  "expireLoop now (fst (expireLoop now rs c)) False = (fst (expireLoop now rs c), False)"
  by (rule expireLoop_fixed) (simp add: expired_none_passed)

lemma sanitize_code [simp]: "sanitizeRoom (r\<lparr>bookingCode := c\<rparr>) = sanitizeRoom r"
  by (simp add: sanitizeRoom_def public_room.truncate_def)

lemma sanitize_makeAvailable_code:
  "sanitizeRoom (makeAvailable (r\<lparr>bookingCode := c\<rparr>)) = sanitizeRoom (makeAvailable r)"
  by (simp add: sanitizeRoom_def public_room.truncate_def makeAvailable_def)

lemma passed_code [simp]: "endTimePassed now (r\<lparr>bookingCode := c\<rparr>) = endTimePassed now r"
  by (simp add: endTimePassed_def)

lemma find_map: "find P (map h rs) = map_option h (find (P \<circ> h) rs)"
  by (induction rs) auto

lemma public_after_expiry:
  "map sanitizeRoom (fst (expireLoop now (map (\<lambda>r. r\<lparr>bookingCode := f r\<rparr>) rs) c))
     = map sanitizeRoom (fst (expireLoop now rs c))"
  by (simp add: expireLoop_fst sanitize_makeAvailable_code)

section \<open>Preservation of co-presence by the timer operations\<close>

lemma copresent_makeAvailable [simp]: "copresent (makeAvailable r)"
  by (simp add: copresent_def makeAvailable_def)


lemma find_in_set: "find p rs = Some r \<Longrightarrow> r \<in> set rs \<and> p r"
  by (induction rs) (auto split: if_splits)


lemma storeInv_writeRooms [simp]: "storeInv (writeRooms rs w) = list_all copresent rs"
  by (simp add: storeInv_def writeRooms_def readRooms_def)








section \<open>What a successful booking, extension and release do\<close>


lemma find_updateFound:
  "find p rs = Some r \<Longrightarrow> p r' \<Longrightarrow> find p (updateFound p (\<lambda>_. r') rs) = Some r'"
  by (induction rs) (auto split: if_splits)

lemma find_expired:
  assumes "\<And>r. P (makeAvailable r) = P r"
  shows "find P (fst (expireLoop now rs c))
           = map_option (\<lambda>r. if endTimePassed now r then makeAvailable r else r) (find P rs)"
  by (induction rs arbitrary: c) (simp_all add: expireLoop_eq assms)

lemma id_makeAvailable [simp]: "id' (makeAvailable r) = id' r"
  by (simp add: makeAvailable_def)

lemma readRooms_writeRooms [simp]: "readRooms (writeRooms rs w) = rs"
  by (simp add: readRooms_def writeRooms_def)

lemma readRooms_pending [simp]: "readRooms (w\<lparr>pendingTimeouts := p\<rparr>) = readRooms w"
  by (simp add: readRooms_def)

lemma readRooms_table [simp]: "readRooms (w\<lparr>autoReleaseTimers := a\<rparr>) = readRooms w"
  by (simp add: readRooms_def)

lemma readRooms_nextHandle [simp]: "readRooms (w\<lparr>nextHandle := n\<rparr>) = readRooms w"
  by (simp add: readRooms_def)

lemma readRooms_clearTimeout [simp]: "readRooms (clearTimeout h w) = readRooms w"
  by (simp add: clearTimeout_def)

lemma scheduleAutoRelease_live:
  assumes "find (\<lambda>x. id' x = roomId) (readRooms w) = Some r"
    and "endTime r = Some t" and "now < t"
  shows "dataFile (scheduleAutoRelease now roomId w) = dataFile w"
proof (cases "autoReleaseTimers w roomId")
  case None
  then show ?thesis
    using assms by (simp add: scheduleAutoRelease_def Let_def setTimeout_def)
next
  case (Some h)
  show ?thesis
    using assms Some
    by (simp add: scheduleAutoRelease_def Let_def setTimeout_def) (simp add: clearTimeout_def)
qed

lemma book_success:
  assumes "parseInt roomIdField = Some roomId" and "parseInt durationField = Some duration"
    and "0 < duration" and "nonBlankString studentName" and "nonBlankString purposeField"
    and "expireRoomsIfNeeded now (readRooms w) w = (rooms, w1)"
    and "find (\<lambda>r. id' r = roomId) rooms = Some room" and "status room \<noteq> js ''Occupied''"
  shows "book now rnd roomIdField studentName purposeField durationField w =
           (Response 200
              (Booked ''Room booked successfully! Save your booking code.''
                 (sanitizeRoom (room\<lparr>status := js ''Occupied'',
                                      bookedBy := Some (trim (toString studentName)),
                                      purpose := Some (trim (toString purposeField)),
                                      endTime := stored (addMinutes now duration),
                                      bookingCode := Some (js (toHex rnd))\<rparr>))
                 (toHex rnd)),
            scheduleAutoRelease now roomId
              (writeRooms
                 (updateFound (\<lambda>r. id' r = roomId)
                    (\<lambda>_. room\<lparr>status := js ''Occupied'',
                                bookedBy := Some (trim (toString studentName)),
                                purpose := Some (trim (toString purposeField)),
                                endTime := stored (addMinutes now duration),
                                bookingCode := Some (js (toHex rnd))\<rparr>) rooms) w1))"
  using assms by (simp add: book_def Let_def)

lemma book_store:
  assumes "parseInt roomIdField = Some roomId" and "parseInt durationField = Some duration"
    and "0 < duration" and "nonBlankString studentName" and "nonBlankString purposeField"
    and "expireRoomsIfNeeded now (readRooms w) w = (rooms, w1)"
    and "find (\<lambda>r. id' r = roomId) rooms = Some room" and "status room \<noteq> js ''Occupied''"
    and "0 \<le> now" and "now + duration * 60000 < 2 ^ 53"
  shows "dataFile (snd (book now rnd roomIdField studentName purposeField durationField w)) =
           Some (updateFound (\<lambda>r. id' r = roomId)
                    (\<lambda>_. room\<lparr>status := js ''Occupied'',
                                bookedBy := Some (trim (toString studentName)),
                                purpose := Some (trim (toString purposeField)),
                                endTime := Some (now + duration * 60000),
                                bookingCode := Some (js (toHex rnd))\<rparr>) rooms)"
proof -
  let ?room' = "room\<lparr>status := js ''Occupied'',
                                bookedBy := Some (trim (toString studentName)),
                                purpose := Some (trim (toString purposeField)),
                                endTime := Some (now + duration * 60000),
                                bookingCode := Some (js (toHex rnd))\<rparr>"
  let ?w2 = "writeRooms (updateFound (\<lambda>r. id' r = roomId) (\<lambda>_. ?room') rooms) w1"
  have ex: "stored (addMinutes now duration) = Some (now + duration * 60000)"
    by (simp add: addMinutes_exact [OF assms(3,9,10)] stored_def)
  have idr: "id' room = roomId" using assms(7) find_in_set by fastforce
  have f: "find (\<lambda>x. id' x = roomId) (readRooms ?w2) = Some ?room'"
    using find_updateFound [OF assms(7), of ?room'] idr by simp
  have pos: "now < now + duration * 60000"
    using assms(3) by linarith
  have "dataFile (scheduleAutoRelease now roomId ?w2) = dataFile ?w2"
    by (rule scheduleAutoRelease_live [OF f _ pos]) simp
  then show ?thesis
    by (simp add: book_success [OF assms(1-8)] ex writeRooms_def)
qed

lemma extend_success:
  assumes "truthy codeField" and "parseInt extraField = Some m" and "0 < m"
    and "expireRoomsIfNeeded now (readRooms w) w = (rooms, w1)"
    and "find (\<lambda>r. Some (id' r) = parseIntStr idParam) rooms = Some room"
    and "status room = js ''Occupied''" and "endTime room = Some t" and "t \<noteq> 0"
    and "map_option JStr (bookingCode room) = Some codeField"
  shows "extend now idParam codeField extraField w =
           (Response 200
              (Changed (''Extended by '' @ showInt m @ '' minutes'')
                 (sanitizeRoom (room\<lparr>endTime := stored (addMinutes t m)\<rparr>))),
            scheduleAutoRelease now (id' room)
              (writeRooms
                 (updateFound (\<lambda>r. Some (id' r) = parseIntStr idParam)
                    (\<lambda>_. room\<lparr>endTime := stored (addMinutes t m)\<rparr>) rooms) w1))"
  using assms by (simp add: extend_def Let_def endTimeSet_def)

lemma expired_rooms_live:
  assumes "expireRoomsIfNeeded now rs w = (rooms, w1)" and "r \<in> set rooms"
    and "endTime r = Some t" and "t \<noteq> 0"
  shows "now < t"
proof -
  have "rooms = fst (expireLoop now rs False)"
    using assms(1) by (simp add: expireRoomsIfNeeded_def split: prod.splits)
  then have "\<not> endTimePassed now r"
    using assms(2) expired_none_passed by blast
  then show ?thesis
    using assms(3,4) by (simp add: endTimePassed_def)
qed

lemma extend_store:
  assumes "truthy codeField" and "parseInt extraField = Some m" and "0 < m"
    and "expireRoomsIfNeeded now (readRooms w) w = (rooms, w1)"
    and "find (\<lambda>r. Some (id' r) = parseIntStr idParam) rooms = Some room"
    and "status room = js ''Occupied''" and "endTime room = Some t" and "t \<noteq> 0"
    and "map_option JStr (bookingCode room) = Some codeField"
    and "0 \<le> t" and "t + m * 60000 < 2 ^ 53"
  shows "dataFile (snd (extend now idParam codeField extraField w)) =
           Some (updateFound (\<lambda>r. Some (id' r) = parseIntStr idParam)
             (\<lambda>_. room\<lparr>endTime := Some (t + m * 60000)\<rparr>) rooms)"
proof -
  let ?P = "\<lambda>r. Some (id' r) = parseIntStr idParam"
  let ?room' = "room\<lparr>endTime := Some (t + m * 60000)\<rparr>"
  let ?w2 = "writeRooms (updateFound ?P (\<lambda>_. ?room') rooms) w1"
  have ex: "stored (addMinutes t m) = Some (t + m * 60000)"
    by (simp add: addMinutes_exact [OF assms(3,10,11)] stored_def)
  have mem: "room \<in> set rooms" and idr: "parseIntStr idParam = Some (id' room)"
    using find_in_set [OF assms(5)] by simp_all
  have P: "?P = (\<lambda>x. id' x = id' room)"
    by (auto simp: idr)
  have live: "now < t"
    by (rule expired_rooms_live [OF assms(4) mem assms(7,8)])
  have f: "find (\<lambda>x. id' x = id' room) (readRooms ?w2) = Some ?room'"
    using find_updateFound [OF assms(5), of ?room'] idr by (simp add: P)
  have later: "now < t + m * 60000"
    using live assms(3) by linarith
  have "dataFile (scheduleAutoRelease now (id' room) ?w2) = dataFile ?w2"
    by (rule scheduleAutoRelease_live [OF f _ later]) simp
  then show ?thesis
    by (simp add: extend_success [OF assms(1-9)] ex writeRooms_def)
qed

lemma release_success:
  assumes "truthy codeField"
    and "find (\<lambda>r. Some (id' r) = parseIntStr idParam) (readRooms w) = Some room"
    and "status room = js ''Occupied''"
    and "map_option JStr (bookingCode room) = Some codeField"
  shows "fst (release idParam codeField w) =
           Response 200 (Changed ''Room released successfully'' (sanitizeRoom (makeAvailable room)))"
    and "readRooms (snd (release idParam codeField w)) =
           updateFound (\<lambda>r. Some (id' r) = parseIntStr idParam) (\<lambda>_. makeAvailable room) (readRooms w)"
  using assms by (simp_all add: release_def Let_def split: option.splits)

lemma hexDigit_ok: "n < 16 \<Longrightarrow> hexDigit n \<in> set ''0123456789abcdef''"
  unfolding hexDigit_def by (rule nth_mem) simp

lemma byteHex_ok: "list_all (\<lambda>c. c \<in> set ''0123456789abcdef'') (byteHex b)"
proof -
  have "unat b < 2 ^ LENGTH(8)" by (rule unsigned_less)
  then have "unat b < 256" by simp
  then have "unat b div 16 < 16" "unat b mod 16 < 16" by simp_all
  then show ?thesis
    unfolding byteHex_def using hexDigit_ok by (simp del: set_simps)
qed

lemma length_toHex: "length (toHex bs) = 2 * length bs"
  by (induction bs) (simp_all add: toHex_def byteHex_def)

lemma toHex_ok: "list_all (\<lambda>c. c \<in> set ''0123456789abcdef'') (toHex bs)"
proof (induction bs)
  case Nil
  show ?case by (simp add: toHex_def)
next
  case (Cons b bs)
  then show ?case
    using byteHex_ok [of b] by (simp add: toHex_def del: set_simps)
qed

lemma matchesHex8_toHex: "length bs = 4 \<Longrightarrow> matchesHex8 (toHex bs)"
  using toHex_ok [of bs] by (simp add: matchesHex8_def length_toHex)

section \<open>Preservation of co-presence by the handlers\<close>







section \<open>Independence of the public output from the booking codes\<close>

lemma id_code [simp]: "id' (r\<lparr>bookingCode := c\<rparr>) = id' r"
  by simp

lemma listRooms_codes:
  "fst (listRooms qr now (w\<lparr>dataFile := Some (map (\<lambda>r. r\<lparr>bookingCode := f r\<rparr>) rs)\<rparr>))
     = fst (listRooms qr now (w\<lparr>dataFile := Some rs\<rparr>))"
  by (simp add: listRooms_def expireRoomsIfNeeded_def readRooms_def expireLoop_eq
        sanitize_makeAvailable_code o_def split: prod.splits)

lemma find_public_codes:
  "map_option sanitizeRoom
     (find (\<lambda>r. Some (id' r) = k)
        (map ((\<lambda>r. if endTimePassed now r then makeAvailable r else r)
              \<circ> (\<lambda>r. r\<lparr>bookingCode := f r\<rparr>)) rs))
   = map_option sanitizeRoom
     (find (\<lambda>r. Some (id' r) = k)
        (map (\<lambda>r. if endTimePassed now r then makeAvailable r else r) rs))"
  by (induction rs) (simp_all add: sanitize_makeAvailable_code)

lemma getRoom_fst:
  "fst (getRoom idParam now w) =
     (case map_option sanitizeRoom
             (find (\<lambda>r. Some (id' r) = parseIntStr idParam)
                (map (\<lambda>r. if endTimePassed now r then makeAvailable r else r) (readRooms w))) of
        None \<Rightarrow> Response 404 (Message ''Room not found'')
      | Some p \<Rightarrow> Response 200 (Room p))"
  by (simp add: getRoom_def expireRoomsIfNeeded_def expireLoop_eq split: option.splits)

lemma getRoom_codes:
  "fst (getRoom idParam now (w\<lparr>dataFile := Some (map (\<lambda>r. r\<lparr>bookingCode := f r\<rparr>) rs)\<rparr>))
     = fst (getRoom idParam now (w\<lparr>dataFile := Some rs\<rparr>))"
  by (simp add: getRoom_fst readRooms_def find_public_codes)

lemma book_embedded_rnd:
  "embeddedRoom (fst (book now rnd1 a b c d w)) = embeddedRoom (fst (book now rnd2 a b c d w))"
  by (simp add: book_def Let_def embeddedRoom_def sanitizeRoom_def public_room.truncate_def
        split: option.splits prod.splits)

lemma sanitize_fields [simp]:
  "id' (sanitizeRoom r) = id' r" "status (sanitizeRoom r) = status r"
  "endTime (sanitizeRoom r) = endTime r"
  by (simp_all add: sanitizeRoom_def public_room.truncate_def)

lemma sanitize_eq_fields:
  assumes "sanitizeRoom r1 = sanitizeRoom r2"
  shows "id' r1 = id' r2" and "endTime r1 = endTime r2"
    and "sanitizeRoom (makeAvailable r1) = sanitizeRoom (makeAvailable r2)"
    and "sanitizeRoom (r1\<lparr>endTime := e\<rparr>) = sanitizeRoom (r2\<lparr>endTime := e\<rparr>)"
proof -
  show "id' r1 = id' r2"
    using arg_cong [OF assms, of id'] by simp
  show "endTime r1 = endTime r2"
    using arg_cong [OF assms, of endTime] by simp
  have m: "\<And>r. sanitizeRoom (makeAvailable r) =
              (sanitizeRoom r)\<lparr>status := js ''Available'', bookedBy := None, purpose := None,
                                endTime := None\<rparr>"
    by (simp add: sanitizeRoom_def public_room.truncate_def makeAvailable_def)
  show "sanitizeRoom (makeAvailable r1) = sanitizeRoom (makeAvailable r2)"
    by (simp add: m assms)
  have u: "\<And>r. sanitizeRoom (r\<lparr>endTime := e\<rparr>) = (sanitizeRoom r)\<lparr>endTime := e\<rparr>"
    by (simp add: sanitizeRoom_def public_room.truncate_def)
  show "sanitizeRoom (r1\<lparr>endTime := e\<rparr>) = sanitizeRoom (r2\<lparr>endTime := e\<rparr>)"
    by (simp add: u assms)
qed

lemma find_public:
  assumes "map sanitizeRoom rs1 = map sanitizeRoom rs2"
  shows "map_option sanitizeRoom (find (\<lambda>r. Some (id' r) = k) rs1) =
         map_option sanitizeRoom (find (\<lambda>r. Some (id' r) = k) rs2)"
  using assms
proof (induction rs1 arbitrary: rs2)
  case Nil
  then show ?case by simp
next
  case (Cons r rs)
  then obtain r' rs' where rs2: "rs2 = r' # rs'" by (cases rs2) auto
  have s: "sanitizeRoom r = sanitizeRoom r'" and t: "map sanitizeRoom rs = map sanitizeRoom rs'"
    using Cons.prems by (simp_all add: rs2)
  show ?case
    using Cons.IH [OF t] s sanitize_eq_fields(1) [OF s] by (simp add: rs2)
qed

lemma expired_public:
  assumes "map sanitizeRoom rs1 = map sanitizeRoom rs2"
  shows "map sanitizeRoom (fst (expireLoop now rs1 c1)) =
         map sanitizeRoom (fst (expireLoop now rs2 c2))"
  using assms
proof (induction rs1 arbitrary: rs2)
  case Nil
  then show ?case by simp
next
  case (Cons r rs)
  then obtain r' rs' where rs2: "rs2 = r' # rs'" by (cases rs2) auto
  have s: "sanitizeRoom r = sanitizeRoom r'" and t: "map sanitizeRoom rs = map sanitizeRoom rs'"
    using Cons.prems by (simp_all add: rs2)
  have p: "endTimePassed now r = endTimePassed now r'"
    using sanitize_eq_fields(2) [OF s] by (simp add: endTimePassed_def)
  show ?case
    using Cons.IH [OF t] s p sanitize_eq_fields(3) [OF s] by (simp add: rs2 expireLoop_eq)
qed

lemma release_embedded:
  assumes "embeddedRoom (fst (release idParam codeField w)) = Some p"
  shows "\<exists>r. find (\<lambda>r. Some (id' r) = parseIntStr idParam) (readRooms w) = Some r
             \<and> p = sanitizeRoom (makeAvailable r)"
proof (cases "find (\<lambda>r. Some (id' r) = parseIntStr idParam) (readRooms w)")
  case None
  then show ?thesis
    using assms by (simp add: release_def embeddedRoom_def Let_def split: if_splits)
next
  case (Some r)
  have "p = sanitizeRoom (makeAvailable r)"
    using assms by (simp add: release_def embeddedRoom_def Let_def Some split: if_splits)
  then show ?thesis using Some by simp
qed

lemma extend_embedded:
  assumes "embeddedRoom (fst (extend now idParam codeField extraField w)) = Some p"
  shows "\<exists>r m t. parseInt extraField = Some m
             \<and> find (\<lambda>r. Some (id' r) = parseIntStr idParam)
                  (fst (expireLoop now (readRooms w) False)) = Some r
             \<and> endTime r = Some t
             \<and> p = sanitizeRoom (r\<lparr>endTime := stored (addMinutes t m)\<rparr>)"
proof -
  obtain rooms w1 where e: "expireRoomsIfNeeded now (readRooms w) w = (rooms, w1)"
    by fastforce
  have rooms: "fst (expireLoop now (readRooms w) False) = rooms"
    using e by (simp add: expireRoomsIfNeeded_def split: prod.splits)
  show ?thesis
  proof (cases "parseInt extraField")
    case None
    then show ?thesis
      using assms by (simp add: extend_def embeddedRoom_def split: if_splits)
  next
    case m: (Some m)
    show ?thesis
    proof (cases "find (\<lambda>r. Some (id' r) = parseIntStr idParam) rooms")
      case None
      then show ?thesis
        using assms by (simp add: extend_def embeddedRoom_def m e split: if_splits)
    next
      case r: (Some r)
      show ?thesis
      proof (cases "endTime r")
        case None
        then show ?thesis
          using assms
          by (simp add: extend_def embeddedRoom_def m e r endTimeSet_def split: if_splits)
      next
        case t: (Some t)
        have "p = sanitizeRoom (r\<lparr>endTime := stored (addMinutes t m)\<rparr>)"
          using assms
          by (simp add: extend_def embeddedRoom_def Let_def m e r t split: if_splits)
        then show ?thesis
          by (simp add: m rooms r t)
      qed
    qed
  qed
qed

lemma release_public:
  assumes "map sanitizeRoom (readRooms w1) = map sanitizeRoom (readRooms w2)"
    and "embeddedRoom (fst (release idParam c1 w1)) = Some p1"
    and "embeddedRoom (fst (release idParam c2 w2)) = Some p2"
  shows "p1 = p2"
proof -
  obtain r1 where r1: "find (\<lambda>r. Some (id' r) = parseIntStr idParam) (readRooms w1) = Some r1"
      "p1 = sanitizeRoom (makeAvailable r1)"
    using release_embedded [OF assms(2)] by blast
  obtain r2 where r2: "find (\<lambda>r. Some (id' r) = parseIntStr idParam) (readRooms w2) = Some r2"
      "p2 = sanitizeRoom (makeAvailable r2)"
    using release_embedded [OF assms(3)] by blast
  have s: "sanitizeRoom r1 = sanitizeRoom r2"
    using find_public [OF assms(1), of "parseIntStr idParam"] r1(1) r2(1) by simp
  show ?thesis
    using sanitize_eq_fields(3) [OF s] r1(2) r2(2) by simp
qed

lemma extend_public:
  assumes "map sanitizeRoom (readRooms w1) = map sanitizeRoom (readRooms w2)"
    and "embeddedRoom (fst (extend now idParam c1 extraField w1)) = Some p1"
    and "embeddedRoom (fst (extend now idParam c2 extraField w2)) = Some p2"
  shows "p1 = p2"
proof -
  obtain r1 m1 t1 where r1: "parseInt extraField = Some m1"
      "find (\<lambda>r. Some (id' r) = parseIntStr idParam)
         (fst (expireLoop now (readRooms w1) False)) = Some r1"
      "endTime r1 = Some t1" "p1 = sanitizeRoom (r1\<lparr>endTime := stored (addMinutes t1 m1)\<rparr>)"
    using extend_embedded [OF assms(2)] by blast
  obtain r2 m2 t2 where r2: "parseInt extraField = Some m2"
      "find (\<lambda>r. Some (id' r) = parseIntStr idParam)
         (fst (expireLoop now (readRooms w2) False)) = Some r2"
      "endTime r2 = Some t2" "p2 = sanitizeRoom (r2\<lparr>endTime := stored (addMinutes t2 m2)\<rparr>)"
    using extend_embedded [OF assms(3)] by blast
  have pub: "map sanitizeRoom (fst (expireLoop now (readRooms w1) False)) =
             map sanitizeRoom (fst (expireLoop now (readRooms w2) False))"
    by (rule expired_public [OF assms(1)])
  have s: "sanitizeRoom r1 = sanitizeRoom r2"
    using find_public [OF pub, of "parseIntStr idParam"] r1(2) r2(2) by simp
  have "t1 = t2" using sanitize_eq_fields(2) [OF s] r1(3) r2(3) by simp
  moreover have "m1 = m2" using r1(1) r2(1) by simp
  ultimately show ?thesis
    using sanitize_eq_fields(4) [OF s] r1(4) r2(4) by simp
qed

section \<open>Evaluation on the example states\<close>

lemma parse_examples:
  "parseInt (JNum 5) = Some 5" "parseInt (JNum 10) = Some 10" "parseInt (JNum 0) = Some 0"
  "parseInt (JNum 40000) = Some 40000" "parseInt (JStr (js ''1.5'')) = Some 1"
  "parseInt (JStr (js ''abc'')) = None" "parseInt (JStr (js ''  -12abc'')) = Some (-12)"
  "parseInt (JStr (js ''9007199254740992'')) = Some 9007199254740992"
  "parseIntStr (js ''5'') = Some 5"
  "showInt 10 = ''10''" "showInt 5 = ''5''" "showInt 1 = ''1''"
  "trim (js ''Ann'') = js ''Ann''" "trim (js ''study'') = js ''study''"
  "trim (js ''  a b  '') = js ''a b''"
  "toHex [0xde, 0xad, 0xbe, 0xef] = ''deadbeef''"
  by (simp_all add: parseInt_def toString_def showInt_def showNat.simps parseIntStr_def js_def
        isWhite_def isDigit_def digitsValue_def digitValue_def trim_def toHex_def byteHex_def
        hexDigit_def toDouble_def roundNat_def excess.simps stored_def Let_def)

lemmas js_defs = truthy_def toString_def nonBlankString_def parse_examples

lemmas num_defs = addMinutes_def timesD_def plusD_def toDouble_def roundNat_def excess.simps
  stored_def isFin_def

lemmas store_defs = readRooms_def writeRooms_def makeAvailable_def endTimePassed_def
  endTimeSet_def expireRoomsIfNeeded_def sanitizeRoom_def public_room.truncate_def

lemmas timer_defs = setTimeout_def clearTimeout_def scheduleAutoRelease_def
  autoReleaseCallback_def fireTimeout_def startup_def

lemmas handler_defs = listRooms_def getRoom_def book_def release_def extend_def

lemmas example_defs = lounge_def studyRoom_def freeWorld_def bookedRoom_def bookedWorld_def
  unreadableWorld_def

lemma longBooking_eq:
  "longBooking = \<lparr>dataFile = Some [lounge, bookedRoom\<lparr>endTime := Some 2400000000\<rparr>],
      autoReleaseTimers = [5 \<mapsto> 0],
      pendingTimeouts = [\<lparr>handle = 0, forRoom = 5, due = 1\<rparr>], nextHandle = 1\<rparr>"
  by (simp add: longBooking_def js_defs num_defs store_defs timer_defs handler_defs example_defs
        Let_def)

lemma afterEarlyFire_eq:
  "afterEarlyFire = \<lparr>dataFile = Some [lounge, bookedRoom\<lparr>endTime := Some 2400000000\<rparr>],
      autoReleaseTimers = Map.empty,
      pendingTimeouts = [\<lparr>handle = 1, forRoom = 5, due = 2\<rparr>], nextHandle = 2\<rparr>"
  by (simp add: afterEarlyFire_def longBooking_eq js_defs store_defs timer_defs example_defs Let_def)

lemma afterExtend_eq:
  "afterExtend = \<lparr>dataFile = Some [lounge, bookedRoom\<lparr>endTime := Some 2400600000\<rparr>],
      autoReleaseTimers = [5 \<mapsto> 2],
      pendingTimeouts = [\<lparr>handle = 1, forRoom = 5, due = 2\<rparr>, \<lparr>handle = 2, forRoom = 5, due = 2\<rparr>],
      nextHandle = 3\<rparr>"
  by (simp add: afterExtend_def afterEarlyFire_eq js_defs num_defs store_defs timer_defs
        handler_defs example_defs Let_def)

lemma book_found:
  assumes "parseInt roomIdField = Some roomId" and "parseInt durationField = Some duration"
    and "0 < duration"
    and "studentName = JStr n" and "trim n \<noteq> []"
    and "purposeField = JStr p" and "trim p \<noteq> []"
    and "length rnd = 4"
    and "find (\<lambda>r. id' r = roomId) (fst (expireRoomsIfNeeded now (readRooms w) w)) = Some room"
    and "status room = js ''Available''"
    and "0 \<le> now" and "now + duration * 60000 < 2 ^ 53"
  shows "fst (book now rnd roomIdField studentName purposeField durationField w) =
           Response 200
             (Booked ''Room booked successfully! Save your booking code.''
                (sanitizeRoom (room\<lparr>status := js ''Occupied'', bookedBy := Some (trim n),
                                     purpose := Some (trim p),
                                     endTime := Some (now + duration * 60000),
                                     bookingCode := Some (js (toHex rnd))\<rparr>))
                (toHex rnd))
       \<and> matchesHex8 (toHex rnd)
       \<and> dataFile (snd (book now rnd roomIdField studentName purposeField durationField w)) =
           Some (updateFound (\<lambda>r. id' r = roomId)
                   (\<lambda>_. room\<lparr>status := js ''Occupied'', bookedBy := Some (trim n),
                               purpose := Some (trim p),
                               endTime := Some (now + duration * 60000),
                               bookingCode := Some (js (toHex rnd))\<rparr>)
                   (fst (expireRoomsIfNeeded now (readRooms w) w)))
       \<and> find (\<lambda>r. id' r = roomId)
            (readRooms (snd (book now rnd roomIdField studentName purposeField durationField w))) =
           Some (room\<lparr>status := js ''Occupied'', bookedBy := Some (trim n),
                       purpose := Some (trim p),
                       endTime := Some (now + duration * 60000),
                       bookingCode := Some (js (toHex rnd))\<rparr>)"
proof -
  obtain rooms w1 where e: "expireRoomsIfNeeded now (readRooms w) w = (rooms, w1)"
    by fastforce
  have f: "find (\<lambda>r. id' r = roomId) rooms = Some room"
    using assms(9) by (simp add: e)
  have nb: "nonBlankString studentName" "nonBlankString purposeField"
    using assms(4-7) by (simp_all add: nonBlankString_def)
  have st: "status room \<noteq> js ''Occupied''"
    using assms(10) by simp
  have idr: "id' room = roomId"
    using find_in_set [OF f] by simp
  have ex: "stored (addMinutes now duration) = Some (now + duration * 60000)"
    by (simp add: addMinutes_exact [OF assms(3,11,12)] stored_def)
  note ok = assms(1-3) nb e f st
  have resp: "fst (book now rnd roomIdField studentName purposeField durationField w) =
           Response 200
             (Booked ''Room booked successfully! Save your booking code.''
                (sanitizeRoom (room\<lparr>status := js ''Occupied'', bookedBy := Some (trim n),
                                     purpose := Some (trim p),
                                     endTime := Some (now + duration * 60000),
                                     bookingCode := Some (js (toHex rnd))\<rparr>))
                (toHex rnd))"
    using book_success [OF ok, of rnd] by (simp add: assms(4,6) toString_def ex)
  have persisted:
    "dataFile (snd (book now rnd roomIdField studentName purposeField durationField w)) =
           Some (updateFound (\<lambda>r. id' r = roomId)
                   (\<lambda>_. room\<lparr>status := js ''Occupied'', bookedBy := Some (trim n),
                               purpose := Some (trim p),
                               endTime := Some (now + duration * 60000),
                               bookingCode := Some (js (toHex rnd))\<rparr>) rooms)"
    using book_store [OF ok assms(11,12), of rnd] by (simp add: assms(4,6) toString_def)
  have found: "find (\<lambda>r. id' r = roomId)
            (readRooms (snd (book now rnd roomIdField studentName purposeField durationField w))) =
           Some (room\<lparr>status := js ''Occupied'', bookedBy := Some (trim n),
                       purpose := Some (trim p),
                       endTime := Some (now + duration * 60000),
                       bookingCode := Some (js (toHex rnd))\<rparr>)"
    using find_updateFound [OF f] idr by (simp add: readRooms_def persisted)
  show ?thesis
    using resp persisted found matchesHex8_toHex [OF assms(8)] by (simp add: e)
qed

section \<open>Extension step by step\<close>

lemma find_unexpired:
  assumes "find (\<lambda>r. id' r = k) rs = Some room" and "\<not> endTimePassed now room"
  shows "find (\<lambda>r. id' r = k) (fst (expireLoop now rs c)) = Some room"
  using assms find_expired [of "\<lambda>r. id' r = k" now rs c] by simp

lemma extend_step:
  assumes "codeField = JStr c" and "c \<noteq> []"
    and "parseInt extraField = Some m" and "0 < m"
    and "parseIntStr idParam = Some k"
    and "find (\<lambda>r. id' r = k) (readRooms w) = Some room"
    and "status room = js ''Occupied''" and "endTime room = Some t" and "now < t"
    and "bookingCode room = Some c"
    and "0 < t" and "t + m * 60000 < 2 ^ 53"
  shows "fst (extend now idParam codeField extraField w) =
           Response 200 (Changed (''Extended by '' @ showInt m @ '' minutes'')
                           (sanitizeRoom (room\<lparr>endTime := Some (t + m * 60000)\<rparr>)))"
    and "find (\<lambda>r. id' r = k) (readRooms (snd (extend now idParam codeField extraField w))) =
           Some (room\<lparr>endTime := Some (t + m * 60000)\<rparr>)"
proof -
  obtain rooms w1 where e: "expireRoomsIfNeeded now (readRooms w) w = (rooms, w1)"
    by fastforce
  have rooms: "rooms = fst (expireLoop now (readRooms w) False)"
    using e by (simp add: expireRoomsIfNeeded_def split: prod.splits)
  have live: "\<not> endTimePassed now room"
    using assms(8,9) by (simp add: endTimePassed_def)
  have f: "find (\<lambda>r. Some (id' r) = parseIntStr idParam) rooms = Some room"
    using find_unexpired [OF assms(6) live, of False] by (simp add: rooms assms(5))
  have tr: "truthy codeField"
    using assms(1,2) by (simp add: truthy_def)
  have code: "map_option JStr (bookingCode room) = Some codeField"
    using assms(1,10) by simp
  have nz: "t \<noteq> 0" and nn: "0 \<le> t"
    using assms(11) by simp_all
  have ex: "stored (addMinutes t m) = Some (t + m * 60000)"
    by (simp add: addMinutes_exact [OF assms(4) nn assms(12)] stored_def)
  note ok = tr assms(3,4) e f assms(7,8) nz code
  show "fst (extend now idParam codeField extraField w) =
           Response 200 (Changed (''Extended by '' @ showInt m @ '' minutes'')
                           (sanitizeRoom (room\<lparr>endTime := Some (t + m * 60000)\<rparr>)))"
    using extend_success [OF ok] by (simp add: ex)
  have idr: "id' room = k"
    using find_in_set [OF assms(6)] by simp
  have "find (\<lambda>r. Some (id' r) = parseIntStr idParam)
          (updateFound (\<lambda>r. Some (id' r) = parseIntStr idParam)
             (\<lambda>_. room\<lparr>endTime := Some (t + m * 60000)\<rparr>) rooms) =
        Some (room\<lparr>endTime := Some (t + m * 60000)\<rparr>)"
    by (rule find_updateFound [OF f]) (simp add: assms(5) idr)
  then show "find (\<lambda>r. id' r = k) (readRooms (snd (extend now idParam codeField extraField w))) =
           Some (room\<lparr>endTime := Some (t + m * 60000)\<rparr>)"
    using extend_store [OF ok nn assms(12)] by (simp add: readRooms_def assms(5))
qed

lemma toHex_nonempty: "length rnd = 4 \<Longrightarrow> toHex rnd \<noteq> []"
  using length_toHex [of rnd] by auto

lemma book_then_extend_twice:
  assumes "parseInt roomIdField = Some roomId" and "parseInt durationField = Some d"
    and "0 < d"
    and "studentName = JStr n" and "trim n \<noteq> []"
    and "purposeField = JStr p" and "trim p \<noteq> []"
    and "length rnd = 4"
    and "find (\<lambda>r. id' r = roomId) (fst (expireRoomsIfNeeded t0 (readRooms w) w)) = Some room"
    and "status room = js ''Available''"
    and "0 \<le> t0"
    and "parseIntStr idParam = Some roomId"
    and "parseInt extra1 = Some m1" and "0 < m1"
    and "parseInt extra2 = Some m2" and "0 < m2"
    and "t1 < t0 + d * 60000" and "t2 < t0 + d * 60000 + m1 * 60000"
    and "t0 + d * 60000 + m1 * 60000 + m2 * 60000 < 2 ^ 53"
  defines "booked \<equiv> room\<lparr>status := js ''Occupied'', bookedBy := Some (trim n),
                            purpose := Some (trim p), endTime := Some (t0 + d * 60000),
                            bookingCode := Some (js (toHex rnd))\<rparr>"
    and "w1 \<equiv> snd (book t0 rnd roomIdField studentName purposeField durationField w)"
  defines "w2 \<equiv> snd (extend t1 idParam (JStr (js (toHex rnd))) extra1 w1)"
  defines "w3 \<equiv> snd (extend t2 idParam (JStr (js (toHex rnd))) extra2 w2)"
  shows "find (\<lambda>r. id' r = roomId) (readRooms w1) = Some booked"
    and "find (\<lambda>r. id' r = roomId) (readRooms w2) =
           Some (booked\<lparr>endTime := Some (t0 + d * 60000 + m1 * 60000)\<rparr>)"
    and "find (\<lambda>r. id' r = roomId) (readRooms w3) =
           Some (booked\<lparr>endTime := Some (t0 + d * 60000 + m1 * 60000 + m2 * 60000)\<rparr>)"
proof -
  have c: "js (toHex rnd) \<noteq> []"
    using toHex_nonempty [OF assms(8)] by simp
  have b0: "t0 + d * 60000 < 2 ^ 53" and b1: "t0 + d * 60000 + m1 * 60000 < 2 ^ 53"
    using assms(14,16,19) by linarith+
  have pos: "0 < t0 + d * 60000" using assms(3,11) by linarith
  have pos2: "0 < t0 + d * 60000 + m1 * 60000" using assms(3,11,14) by linarith
  show b: "find (\<lambda>r. id' r = roomId) (readRooms w1) = Some booked"
    unfolding w1_def booked_def
    using book_found [OF assms(1-11) b0] by simp
  show e1: "find (\<lambda>r. id' r = roomId) (readRooms w2) =
           Some (booked\<lparr>endTime := Some (t0 + d * 60000 + m1 * 60000)\<rparr>)"
    unfolding w2_def
    by (rule extend_step(2) [OF refl c assms(13,14,12) b _ _ assms(17) _ pos b1])
       (simp_all add: booked_def)
  show "find (\<lambda>r. id' r = roomId) (readRooms w3) =
           Some (booked\<lparr>endTime := Some (t0 + d * 60000 + m1 * 60000 + m2 * 60000)\<rparr>)"
    unfolding w3_def
    using extend_step(2) [OF refl c assms(15,16,12) e1 _ _ assms(18) _ pos2 assms(19)]
    by (simp add: booked_def)
qed

lemma extend_observes_expiry:
  assumes "truthy codeField" and "parseInt extraField = Some m" and "0 < m"
    and "parseIntStr idParam = Some k"
    and "find (\<lambda>r. id' r = k) (readRooms w) = Some room"
    and "endTimePassed now room"
  shows "fst (extend now idParam codeField extraField w) =
           Response 400 (Message ''Room is not currently occupied'')"
proof -
  obtain rooms w1 where e: "expireRoomsIfNeeded now (readRooms w) w = (rooms, w1)"
    by fastforce
  have rooms: "rooms = fst (expireLoop now (readRooms w) False)"
    using e by (simp add: expireRoomsIfNeeded_def split: prod.splits)
  have "find (\<lambda>r. id' r = k) rooms = Some (makeAvailable room)"
    using assms(5,6) find_expired [of "\<lambda>r. id' r = k" now "readRooms w" False]
    by (simp add: rooms)
  then show ?thesis
    using assms(1-4) by (simp add: extend_def e makeAvailable_def)
qed

text \<open>
  When no timer fires in between, a booking followed by two extensions leaves exactly one
  timeout pending for the room.
\<close>

lemma single_timer_when_none_fires:
  "pendingTimeouts
     (snd (extend 3000 (js ''5'') (JStr (js ''deadbeef'')) (JNum 10)
        (snd (extend 2000 (js ''5'') (JStr (js ''deadbeef'')) (JNum 10)
           (snd (book 1000 [0xde, 0xad, 0xbe, 0xef] (JNum 5) (JStr (js ''Ann''))
                   (JStr (js ''study'')) (JNum 10) freeWorld))))))
   = [\<lparr>handle = 2, forRoom = 5, due = 1801000\<rparr>]"
  by (simp add: js_defs num_defs store_defs timer_defs handler_defs example_defs Let_def)

section \<open>A booking beyond the range of the doubles\<close>





section \<open>The claims\<close>

text \<open>
  C1. Extend and release on a room whose end time has passed. The release handler reads
  the rooms with \<open>readRooms\<close> alone and never runs the lazy expiry that the extend, book
  and read handlers run. At the instant 700000 room 5 of \<open>bookedWorld\<close>, booked until
  600000, has lapsed and its timer has not fired: a release with the stored code succeeds
  against the stale record, a release with another code is answered 403 from the stale
  code, and only the extend handler answers that the room is not currently occupied.
\<close>

theorem release_skips_expiry:
  "find (\<lambda>r. id' r = 5) (readRooms bookedWorld) = Some bookedRoom
   \<and> endTimePassed 700000 bookedRoom
   \<and> fst (release (js ''5'') (JStr (js ''deadbeef'')) bookedWorld) =
        Response 200 (Changed ''Room released successfully''
          \<lparr>id' = 5, name = js ''Study room'', status = js ''Available'', bookedBy = None,
            purpose = None, endTime = None\<rparr>)
   \<and> fst (release (js ''5'') (JStr (js ''0badc0de'')) bookedWorld) =
        Response 403 (Message ''Invalid booking code'')
   \<and> fst (extend 700000 (js ''5'') (JStr (js ''deadbeef'')) (JNum 5) bookedWorld) =
        Response 400 (Message ''Room is not currently occupied'')
   \<and> fst (extend 700000 (js ''5'') (JStr (js ''0badc0de'')) (JNum 5) bookedWorld) =
        Response 400 (Message ''Room is not currently occupied'')"
  by (simp add: js_defs store_defs handler_defs example_defs Let_def)

theorem release_skips_expiry_witness:
  "fst (release (js ''5'') (JStr (js ''deadbeef'')) bookedWorld)
     \<noteq> Response 400 (Message ''Room is not occupied'')
   \<and> fst (release (js ''5'') (JStr (js ''0badc0de'')) bookedWorld)
     \<noteq> Response 400 (Message ''Room is not occupied'')"
  using release_skips_expiry by simp




text \<open>
  C3, as stated, fails: JavaScript numbers are doubles, so the end time
  \<^verbatim>\<open>Date.now() + duration * 60 * 1000\<close> is rounded as soon as it leaves the range of the
  exactly representable integers. A booking of room 5 made at the instant 1000 for
  9007199254740992 minutes is stored with the end time 540431955284459520000, not with
  \<open>now + duration * 60000 = 540431955284459521000\<close>.
\<close>

theorem book_postcondition_counterexample:
  "find (\<lambda>r. id' r = 5) (fst (expireRoomsIfNeeded 1000 (readRooms freeWorld) freeWorld)) =
      Some studyRoom
   \<and> status studyRoom = js ''Available''
   \<and> parseInt (JStr (js ''9007199254740992'')) = Some 9007199254740992
   \<and> fst (book 1000 [0xde, 0xad, 0xbe, 0xef] (JNum 5) (JStr (js ''Ann'')) (JStr (js ''study''))
           (JStr (js ''9007199254740992'')) freeWorld) =
        Response 200
          (Booked ''Room booked successfully! Save your booking code.''
             \<lparr>id' = 5, name = js ''Study room'', status = js ''Occupied'',
               bookedBy = Some (js ''Ann''), purpose = Some (js ''study''),
               endTime = Some 540431955284459520000\<rparr>
             ''deadbeef'')
   \<and> map_option endTime
        (find (\<lambda>r. id' r = 5)
           (readRooms (snd (book 1000 [0xde, 0xad, 0xbe, 0xef] (JNum 5) (JStr (js ''Ann''))
                              (JStr (js ''study'')) (JStr (js ''9007199254740992'')) freeWorld))))
      = Some (Some 540431955284459520000)
   \<and> (1000 :: int) + 9007199254740992 * 60000 = 540431955284459521000"
  by (simp add: js_defs num_defs store_defs timer_defs handler_defs example_defs Let_def)

text \<open>
  C3, amended. Book postcondition: a book request for an existing room that is Available
  when the handler looks at it, with a name and a purpose that are non-empty after
  trimming and a positive integer duration such that \<open>now + duration * 60000\<close> is below
  \<open>2 ^ 53\<close>, answers 200 with a booking code that is the hex rendering of the 4 random
  bytes and matches \<^verbatim>\<open>^[a-f0-9]{8}$\<close>; the room is stored as Occupied with the trimmed
  name and purpose, that code, and \<open>endTime = now + duration * 60000\<close>, and the response
  embeds the public projection of that room.
\<close>

theorem book_postcondition:
  assumes "parseInt roomIdField = Some roomId" and "parseInt durationField = Some duration"
    and "0 < duration"
    and "studentName = JStr n" and "trim n \<noteq> []"
    and "purposeField = JStr p" and "trim p \<noteq> []"
    and "length rnd = 4"
    and "find (\<lambda>r. id' r = roomId) (fst (expireRoomsIfNeeded now (readRooms w) w)) = Some room"
    and "status room = js ''Available''"
    and "0 \<le> now" and "now + duration * 60000 < 2 ^ 53"
  shows "fst (book now rnd roomIdField studentName purposeField durationField w) =
           Response 200
             (Booked ''Room booked successfully! Save your booking code.''
                (sanitizeRoom (room\<lparr>status := js ''Occupied'', bookedBy := Some (trim n),
                                     purpose := Some (trim p),
                                     endTime := Some (now + duration * 60000),
                                     bookingCode := Some (js (toHex rnd))\<rparr>))
                (toHex rnd))
       \<and> matchesHex8 (toHex rnd)
       \<and> dataFile (snd (book now rnd roomIdField studentName purposeField durationField w)) =
           Some (updateFound (\<lambda>r. id' r = roomId)
                   (\<lambda>_. room\<lparr>status := js ''Occupied'', bookedBy := Some (trim n),
                               purpose := Some (trim p),
                               endTime := Some (now + duration * 60000),
                               bookingCode := Some (js (toHex rnd))\<rparr>)
                   (fst (expireRoomsIfNeeded now (readRooms w) w)))
       \<and> find (\<lambda>r. id' r = roomId)
            (readRooms (snd (book now rnd roomIdField studentName purposeField durationField w))) =
           Some (room\<lparr>status := js ''Occupied'', bookedBy := Some (trim n),
                       purpose := Some (trim p),
                       endTime := Some (now + duration * 60000),
                       bookingCode := Some (js (toHex rnd))\<rparr>)"
  by (rule book_found [OF assms])

theorem book_postcondition_witness:
  "parseInt (JNum 5) = Some 5 \<and> parseInt (JNum 10) = Some 10 \<and> (0::int) < 10
   \<and> trim (js ''Ann'') \<noteq> [] \<and> trim (js ''study'') \<noteq> []
   \<and> length [0xde, 0xad, 0xbe, 0xef :: 8 word] = 4
   \<and> find (\<lambda>r. id' r = 5) (fst (expireRoomsIfNeeded 1000 (readRooms freeWorld) freeWorld)) =
        Some studyRoom
   \<and> status studyRoom = js ''Available''
   \<and> (0::int) \<le> 1000 \<and> (1000::int) + 10 * 60000 < 2 ^ 53
   \<and> fst (book 1000 [0xde, 0xad, 0xbe, 0xef] (JNum 5) (JStr (js ''Ann'')) (JStr (js ''study''))
           (JNum 10) freeWorld) =
        Response 200
          (Booked ''Room booked successfully! Save your booking code.''
             \<lparr>id' = 5, name = js ''Study room'', status = js ''Occupied'',
               bookedBy = Some (js ''Ann''), purpose = Some (js ''study''),
               endTime = Some 601000\<rparr>
             ''deadbeef'')
   \<and> matchesHex8 ''deadbeef''
   \<and> dataFile (snd (book 1000 [0xde, 0xad, 0xbe, 0xef] (JNum 5) (JStr (js ''Ann''))
                      (JStr (js ''study'')) (JNum 10) freeWorld)) =
        Some [lounge,
              \<lparr>id' = 5, name = js ''Study room'', status = js ''Occupied'',
                bookedBy = Some (js ''Ann''), purpose = Some (js ''study''),
                endTime = Some 601000, bookingCode = Some (js ''deadbeef'')\<rparr>]"
proof -
  have h: "parseInt (JNum 5) = Some 5" "parseInt (JNum 10) = Some 10" "(0::int) < 10"
    "JStr (js ''Ann'') = JStr (js ''Ann'')" "trim (js ''Ann'') \<noteq> []"
    "JStr (js ''study'') = JStr (js ''study'')" "trim (js ''study'') \<noteq> []"
    "length [0xde, 0xad, 0xbe, 0xef :: 8 word] = 4"
    "find (\<lambda>r. id' r = 5) (fst (expireRoomsIfNeeded 1000 (readRooms freeWorld) freeWorld)) =
       Some studyRoom"
    "status studyRoom = js ''Available''"
    "(0::int) \<le> 1000" "(1000::int) + 10 * 60000 < 2 ^ 53"
    by (simp_all add: js_defs store_defs example_defs)
  show ?thesis
    using h book_postcondition [OF h]
    by (simp add: js_defs store_defs example_defs)
qed

text \<open>
  C4, as stated, fails: the addition \<^verbatim>\<open>room.endTime += extraMinutes * 60 * 1000\<close> is made
  on doubles. Room 5 of \<open>bookedWorld\<close> ends at 600000; a successful extension by
  9007199254740992 minutes stores the end time 540431955284460109824, which is not
  \<open>600000 + 9007199254740992 * 60000 = 540431955284460120000\<close>.
\<close>

theorem no_lost_extension_counterexample:
  "find (\<lambda>r. id' r = 5) (readRooms bookedWorld) = Some bookedRoom
   \<and> status bookedRoom = js ''Occupied'' \<and> endTime bookedRoom = Some 600000
   \<and> bookingCode bookedRoom = Some (js ''deadbeef'')
   \<and> parseInt (JStr (js ''9007199254740992'')) = Some 9007199254740992
   \<and> fst (extend 1000 (js ''5'') (JStr (js ''deadbeef'')) (JStr (js ''9007199254740992''))
           bookedWorld) =
        Response 200 (Changed ''Extended by 9007199254740992 minutes''
          \<lparr>id' = 5, name = js ''Study room'', status = js ''Occupied'',
            bookedBy = Some (js ''Ann''), purpose = Some (js ''study''),
            endTime = Some 540431955284460109824\<rparr>)
   \<and> map_option endTime
        (find (\<lambda>r. id' r = 5)
           (readRooms (snd (extend 1000 (js ''5'') (JStr (js ''deadbeef''))
                              (JStr (js ''9007199254740992'')) bookedWorld))))
      = Some (Some 540431955284460109824)
   \<and> (600000 :: int) + 9007199254740992 * 60000 = 540431955284460120000"
  by (simp add: js_defs num_defs store_defs timer_defs handler_defs example_defs Let_def
        showInt_def showNat.simps)

text \<open>
  C4, amended. No lost extension, as long as the end times stay below \<open>2 ^ 53\<close>. First
  part: an extend request with the stored code and a positive integer \<open>m\<close> on a room that
  is Occupied with an end time \<open>t\<close> still ahead, \<open>t + m * 60000\<close> being below \<open>2 ^ 53\<close>,
  answers 200 and stores the end time \<open>t + m * 60000\<close>. Second part: after a successful
  booking at the instant \<open>t0\<close> for \<open>d\<close> minutes, an extension by \<open>m1\<close> minutes made
  before the booking lapses stores the end time \<open>t0 + d * 60000 + m1 * 60000\<close>, and a
  second extension by \<open>m2\<close> minutes stores that plus \<open>m2 * 60000\<close>, the last sum being
  below \<open>2 ^ 53\<close>. With 10 and 5 minutes this is 15 minutes after the booking instant;
  with two extensions of 10 minutes it is the original end time plus 20 minutes.
\<close>

theorem no_lost_extension:
  "(codeField = JStr c \<and> c \<noteq> [] \<and> parseInt extraField = Some m \<and> 0 < m
      \<and> parseIntStr idParam = Some k
      \<and> find (\<lambda>r. id' r = k) (readRooms w) = Some room
      \<and> status room = js ''Occupied'' \<and> endTime room = Some t \<and> 0 < t \<and> now < t
      \<and> bookingCode room = Some c
      \<and> t + m * 60000 < 2 ^ 53
    \<longrightarrow> fst (extend now idParam codeField extraField w) =
           Response 200 (Changed (''Extended by '' @ showInt m @ '' minutes'')
                           (sanitizeRoom (room\<lparr>endTime := Some (t + m * 60000)\<rparr>)))
      \<and> find (\<lambda>r. id' r = k) (readRooms (snd (extend now idParam codeField extraField w))) =
           Some (room\<lparr>endTime := Some (t + m * 60000)\<rparr>))
   \<and> (parseInt roomIdField = Some roomId \<and> parseInt durationField = Some d \<and> 0 < d
      \<and> studentName = JStr n \<and> trim n \<noteq> [] \<and> purposeField = JStr p \<and> trim p \<noteq> []
      \<and> length rnd = 4
      \<and> find (\<lambda>r. id' r = roomId) (fst (expireRoomsIfNeeded t0 (readRooms w0) w0)) = Some room0
      \<and> status room0 = js ''Available'' \<and> 0 \<le> t0
      \<and> parseIntStr idParam' = Some roomId
      \<and> parseInt extra1 = Some m1 \<and> 0 < m1 \<and> parseInt extra2 = Some m2 \<and> 0 < m2
      \<and> t1 < t0 + d * 60000 \<and> t2 < t0 + d * 60000 + m1 * 60000
      \<and> t0 + d * 60000 + m1 * 60000 + m2 * 60000 < 2 ^ 53
    \<longrightarrow> map_option endTime
          (find (\<lambda>r. id' r = roomId)
             (readRooms (snd (book t0 rnd roomIdField studentName purposeField durationField w0))))
        = Some (Some (t0 + d * 60000))
      \<and> map_option endTime
          (find (\<lambda>r. id' r = roomId)
             (readRooms (snd (extend t1 idParam' (JStr (js (toHex rnd))) extra1
                (snd (book t0 rnd roomIdField studentName purposeField durationField w0))))))
        = Some (Some (t0 + d * 60000 + m1 * 60000))
      \<and> map_option endTime
          (find (\<lambda>r. id' r = roomId)
             (readRooms (snd (extend t2 idParam' (JStr (js (toHex rnd))) extra2
                (snd (extend t1 idParam' (JStr (js (toHex rnd))) extra1
                   (snd (book t0 rnd roomIdField studentName purposeField durationField w0))))))))
        = Some (Some (t0 + d * 60000 + m1 * 60000 + m2 * 60000)))"
proof (intro conjI impI)
  assume a: "codeField = JStr c \<and> c \<noteq> [] \<and> parseInt extraField = Some m \<and> 0 < m
      \<and> parseIntStr idParam = Some k
      \<and> find (\<lambda>r. id' r = k) (readRooms w) = Some room
      \<and> status room = js ''Occupied'' \<and> endTime room = Some t \<and> 0 < t \<and> now < t
      \<and> bookingCode room = Some c
      \<and> t + m * 60000 < 2 ^ 53"
  have g: "codeField = JStr c" "c \<noteq> []" "parseInt extraField = Some m" "0 < m"
      "parseIntStr idParam = Some k" "find (\<lambda>r. id' r = k) (readRooms w) = Some room"
      "status room = js ''Occupied''" "endTime room = Some t" "now < t"
      "bookingCode room = Some c" "0 < t" "t + m * 60000 < 2 ^ 53"
    using a by simp_all
  show "fst (extend now idParam codeField extraField w) =
           Response 200 (Changed (''Extended by '' @ showInt m @ '' minutes'')
                           (sanitizeRoom (room\<lparr>endTime := Some (t + m * 60000)\<rparr>)))"
    by (rule extend_step(1) [OF g])
  show "find (\<lambda>r. id' r = k) (readRooms (snd (extend now idParam codeField extraField w))) =
           Some (room\<lparr>endTime := Some (t + m * 60000)\<rparr>)"
    by (rule extend_step(2) [OF g])
next
  assume b: "parseInt roomIdField = Some roomId \<and> parseInt durationField = Some d \<and> 0 < d
      \<and> studentName = JStr n \<and> trim n \<noteq> [] \<and> purposeField = JStr p \<and> trim p \<noteq> []
      \<and> length rnd = 4
      \<and> find (\<lambda>r. id' r = roomId) (fst (expireRoomsIfNeeded t0 (readRooms w0) w0)) = Some room0
      \<and> status room0 = js ''Available'' \<and> 0 \<le> t0
      \<and> parseIntStr idParam' = Some roomId
      \<and> parseInt extra1 = Some m1 \<and> 0 < m1 \<and> parseInt extra2 = Some m2 \<and> 0 < m2
      \<and> t1 < t0 + d * 60000 \<and> t2 < t0 + d * 60000 + m1 * 60000
      \<and> t0 + d * 60000 + m1 * 60000 + m2 * 60000 < 2 ^ 53"
  have h: "parseInt roomIdField = Some roomId" "parseInt durationField = Some d" "0 < d"
      "studentName = JStr n" "trim n \<noteq> []" "purposeField = JStr p" "trim p \<noteq> []"
      "length rnd = 4"
      "find (\<lambda>r. id' r = roomId) (fst (expireRoomsIfNeeded t0 (readRooms w0) w0)) = Some room0"
      "status room0 = js ''Available''" "0 \<le> t0"
      "parseIntStr idParam' = Some roomId"
      "parseInt extra1 = Some m1" "0 < m1" "parseInt extra2 = Some m2" "0 < m2"
      "t1 < t0 + d * 60000" "t2 < t0 + d * 60000 + m1 * 60000"
      "t0 + d * 60000 + m1 * 60000 + m2 * 60000 < 2 ^ 53"
    using b by simp_all
  show "map_option endTime
          (find (\<lambda>r. id' r = roomId)
             (readRooms (snd (book t0 rnd roomIdField studentName purposeField durationField w0))))
        = Some (Some (t0 + d * 60000))"
    by (simp add: book_then_extend_twice(1) [OF h])
  show "map_option endTime
          (find (\<lambda>r. id' r = roomId)
             (readRooms (snd (extend t1 idParam' (JStr (js (toHex rnd))) extra1
                (snd (book t0 rnd roomIdField studentName purposeField durationField w0))))))
        = Some (Some (t0 + d * 60000 + m1 * 60000))"
    by (simp add: book_then_extend_twice(2) [OF h])
  show "map_option endTime
          (find (\<lambda>r. id' r = roomId)
             (readRooms (snd (extend t2 idParam' (JStr (js (toHex rnd))) extra2
                (snd (extend t1 idParam' (JStr (js (toHex rnd))) extra1
                   (snd (book t0 rnd roomIdField studentName purposeField durationField w0))))))))
        = Some (Some (t0 + d * 60000 + m1 * 60000 + m2 * 60000))"
    by (simp add: book_then_extend_twice(3) [OF h])
qed

theorem no_lost_extension_witness:
  "parseInt (JNum 5) = Some 5 \<and> parseInt (JNum 10) = Some 10 \<and> parseIntStr (js ''5'') = Some 5
   \<and> find (\<lambda>r. id' r = 5) (fst (expireRoomsIfNeeded 1000 (readRooms freeWorld) freeWorld)) =
        Some studyRoom
   \<and> status studyRoom = js ''Available''
   \<and> toHex [0xde, 0xad, 0xbe, 0xef] = ''deadbeef''
   \<and> map_option endTime
        (find (\<lambda>r. id' r = 5)
           (readRooms (snd (book 1000 [0xde, 0xad, 0xbe, 0xef] (JNum 5) (JStr (js ''Ann''))
                              (JStr (js ''study'')) (JNum 10) freeWorld))))
      = Some (Some 601000)
   \<and> map_option endTime
        (find (\<lambda>r. id' r = 5)
           (readRooms (snd (extend 2000 (js ''5'') (JStr (js ''deadbeef'')) (JNum 5)
              (snd (book 1000 [0xde, 0xad, 0xbe, 0xef] (JNum 5) (JStr (js ''Ann''))
                      (JStr (js ''study'')) (JNum 10) freeWorld))))))
      = Some (Some 901000)
   \<and> map_option endTime
        (find (\<lambda>r. id' r = 5)
           (readRooms (snd (extend 3000 (js ''5'') (JStr (js ''deadbeef'')) (JNum 10)
              (snd (extend 2000 (js ''5'') (JStr (js ''deadbeef'')) (JNum 10)
                 (snd (book 1000 [0xde, 0xad, 0xbe, 0xef] (JNum 5) (JStr (js ''Ann''))
                         (JStr (js ''study'')) (JNum 10) freeWorld))))))))
      = Some (Some 1801000)
   \<and> find (\<lambda>r. id' r = 5) (readRooms bookedWorld) = Some bookedRoom
   \<and> fst (extend 1000 (js ''5'') (JStr (js ''deadbeef'')) (JNum 5) bookedWorld) =
        Response 200 (Changed ''Extended by 5 minutes''
          \<lparr>id' = 5, name = js ''Study room'', status = js ''Occupied'',
            bookedBy = Some (js ''Ann''), purpose = Some (js ''study''),
            endTime = Some 900000\<rparr>)
   \<and> find (\<lambda>r. id' r = 5)
        (readRooms (snd (extend 1000 (js ''5'') (JStr (js ''deadbeef'')) (JNum 5) bookedWorld))) =
        Some (bookedRoom\<lparr>endTime := Some 900000\<rparr>)"
proof -
  have h: "parseInt (JNum 5) = Some 5" "parseInt (JNum 10) = Some 10"
    "parseIntStr (js ''5'') = Some 5"
    "find (\<lambda>r. id' r = 5) (fst (expireRoomsIfNeeded 1000 (readRooms freeWorld) freeWorld)) =
       Some studyRoom"
    "status studyRoom = js ''Available''" "toHex [0xde, 0xad, 0xbe, 0xef] = ''deadbeef''"
    "find (\<lambda>r. id' r = 5) (readRooms bookedWorld) = Some bookedRoom"
    "trim (js ''Ann'') = js ''Ann''" "trim (js ''study'') = js ''study''"
    "status bookedRoom = js ''Occupied''" "endTime bookedRoom = Some 600000"
    "bookingCode bookedRoom = Some (js ''deadbeef'')" "showInt 5 = ''5''"
    by (simp_all add: js_defs store_defs example_defs)
  show ?thesis
    using h
      no_lost_extension [where codeField = "JStr (js ''deadbeef'')" and c = "js ''deadbeef''"
        and extraField = "JNum 5" and m = 5 and idParam = "js ''5''" and k = 5
        and w = bookedWorld and room = bookedRoom and t = 600000 and now = 1000
        and roomIdField = "JNum 5" and roomId = 5 and durationField = "JNum 10" and d = 10
        and studentName = "JStr (js ''Ann'')" and n = "js ''Ann''"
        and purposeField = "JStr (js ''study'')" and p = "js ''study''"
        and rnd = "[0xde, 0xad, 0xbe, 0xef]" and ?t0.0 = 1000 and ?w0.0 = freeWorld
        and ?room0.0 = studyRoom and idParam' = "js ''5''" and ?extra1.0 = "JNum 5"
        and ?m1.0 = 5 and ?extra2.0 = "JNum 10" and ?m2.0 = 10 and ?t1.0 = 2000
        and ?t2.0 = 3000]
      no_lost_extension [where
        roomIdField = "JNum 5" and roomId = 5 and durationField = "JNum 10" and d = 10
        and studentName = "JStr (js ''Ann'')" and n = "js ''Ann''"
        and purposeField = "JStr (js ''study'')" and p = "js ''study''"
        and rnd = "[0xde, 0xad, 0xbe, 0xef]" and ?t0.0 = 1000 and ?w0.0 = freeWorld
        and ?room0.0 = studyRoom and idParam' = "js ''5''" and ?extra1.0 = "JNum 10"
        and ?m1.0 = 10 and ?extra2.0 = "JNum 10" and ?m2.0 = 10 and ?t1.0 = 2000
        and ?t2.0 = 3000]
    by (simp add: sanitizeRoom_def public_room.truncate_def bookedRoom_def)
qed

text \<open>
  C5, as stated, fails on the extend handler in two ways. It validates \<open>extraMinutes\<close>
  before it reads the rooms: a wrong booking code for the Occupied room 5 of
  \<open>bookedWorld\<close> with an \<open>extraMinutes\<close> of 0 is answered 400 "extraMinutes must be a
  positive integer", not 403. And it takes a room without an end time for a room that is
  not occupied: a wrong booking code with a valid \<open>extraMinutes\<close> for room 5 of
  \<open>overflowWorld\<close>, whose status is Occupied and whose end time is absent, is answered
  400 "Room is not currently occupied", not 403.
\<close>

theorem authorization_precedence_counterexample:
  "find (\<lambda>r. id' r = 5) (readRooms bookedWorld) = Some bookedRoom
   \<and> parseIntStr (js ''5'') = Some 5
   \<and> status bookedRoom = js ''Occupied''
   \<and> \<not> endTimePassed 1000 bookedRoom
   \<and> bookingCode bookedRoom \<noteq> Some (js ''0badc0de'')
   \<and> truthy (JStr (js ''0badc0de''))
   \<and> extend 1000 (js ''5'') (JStr (js ''0badc0de'')) (JNum 0) bookedWorld =
        (Response 400 (Message ''extraMinutes must be a positive integer''), bookedWorld)
   \<and> fst (extend 1000 (js ''5'') (JStr (js ''0badc0de'')) (JNum 0) bookedWorld)
        \<noteq> Response 403 (Message ''Invalid booking code'')
   \<and> find (\<lambda>r. id' r = 5) (readRooms overflowWorld) = Some (bookedRoom\<lparr>endTime := None\<rparr>)
   \<and> status (bookedRoom\<lparr>endTime := None\<rparr>) = js ''Occupied''
   \<and> \<not> endTimePassed 1000 (bookedRoom\<lparr>endTime := None\<rparr>)
   \<and> bookingCode (bookedRoom\<lparr>endTime := None\<rparr>) \<noteq> Some (js ''0badc0de'')
   \<and> parseInt (JNum 5) = Some 5
   \<and> extend 1000 (js ''5'') (JStr (js ''0badc0de'')) (JNum 5) overflowWorld =
        (Response 400 (Message ''Room is not currently occupied''), overflowWorld)
   \<and> fst (extend 1000 (js ''5'') (JStr (js ''0badc0de'')) (JNum 5) overflowWorld)
        \<noteq> Response 403 (Message ''Invalid booking code'')"
  by (simp add: js_defs store_defs handler_defs example_defs overflowWorld_def Let_def)

text \<open>
  C5, amended. Authorization precedence for requests that pass input validation, a
  room counting as Occupied while its end time is set and still ahead. For a release
  request carrying a booking code, and for an extend request carrying a booking code and
  a positive integer \<open>extraMinutes\<close>: if the room exists, its status is Occupied, its end
  time has not passed (for extend: is set and has not passed) and the code differs from
  the stored one, the answer is 403 "Invalid booking code"; if the room exists and its
  status is not Occupied, the answer is 400 "not occupied" whatever the code, and the
  extend handler gives that answer too when the end time is absent or has passed.
\<close>

theorem authorization_precedence:
  assumes "truthy codeField"
  shows "(find (\<lambda>r. Some (id' r) = parseIntStr idParam) (readRooms w) = Some room
            \<and> status room = js ''Occupied'' \<and> \<not> endTimePassed now room
            \<and> map_option JStr (bookingCode room) \<noteq> Some codeField
          \<longrightarrow> release idParam codeField w = (Response 403 (Message ''Invalid booking code''), w))
       \<and> (find (\<lambda>r. Some (id' r) = parseIntStr idParam) (readRooms w) = Some room
            \<and> status room \<noteq> js ''Occupied''
          \<longrightarrow> release idParam codeField w = (Response 400 (Message ''Room is not occupied''), w))
       \<and> (parseInt extraField = Some m \<and> 0 < m
            \<and> find (\<lambda>r. Some (id' r) = parseIntStr idParam) (readRooms w) = Some room
            \<and> status room = js ''Occupied'' \<and> endTimeSet room \<and> \<not> endTimePassed now room
            \<and> map_option JStr (bookingCode room) \<noteq> Some codeField
          \<longrightarrow> fst (extend now idParam codeField extraField w) =
                Response 403 (Message ''Invalid booking code''))
       \<and> (parseInt extraField = Some m \<and> 0 < m
            \<and> find (\<lambda>r. Some (id' r) = parseIntStr idParam) (readRooms w) = Some room
            \<and> (status room \<noteq> js ''Occupied'' \<or> \<not> endTimeSet room \<or> endTimePassed now room)
          \<longrightarrow> fst (extend now idParam codeField extraField w) =
                Response 400 (Message ''Room is not currently occupied''))"
proof -
  obtain rooms w1 where e: "expireRoomsIfNeeded now (readRooms w) w = (rooms, w1)"
    by fastforce
  have rooms: "rooms = fst (expireLoop now (readRooms w) False)"
    using e by (simp add: expireRoomsIfNeeded_def split: prod.splits)
  have f: "find (\<lambda>r. Some (id' r) = parseIntStr idParam) rooms =
             map_option (\<lambda>r. if endTimePassed now r then makeAvailable r else r)
               (find (\<lambda>r. Some (id' r) = parseIntStr idParam) (readRooms w))"
    unfolding rooms by (rule find_expired) simp
  have rel: "find (\<lambda>r. Some (id' r) = parseIntStr idParam) (readRooms w) = Some room
            \<and> status room = js ''Occupied'' \<and> \<not> endTimePassed now room
            \<and> map_option JStr (bookingCode room) \<noteq> Some codeField
          \<longrightarrow> release idParam codeField w = (Response 403 (Message ''Invalid booking code''), w)"
    using assms by (simp add: release_def Let_def)
  have rel2: "find (\<lambda>r. Some (id' r) = parseIntStr idParam) (readRooms w) = Some room
            \<and> status room \<noteq> js ''Occupied''
          \<longrightarrow> release idParam codeField w = (Response 400 (Message ''Room is not occupied''), w)"
    using assms by (simp add: release_def Let_def)
  have ext: "parseInt extraField = Some m \<and> 0 < m
            \<and> find (\<lambda>r. Some (id' r) = parseIntStr idParam) (readRooms w) = Some room
            \<and> status room = js ''Occupied'' \<and> endTimeSet room \<and> \<not> endTimePassed now room
            \<and> map_option JStr (bookingCode room) \<noteq> Some codeField
          \<longrightarrow> fst (extend now idParam codeField extraField w) =
                Response 403 (Message ''Invalid booking code'')"
    using assms by (simp add: extend_def e f Let_def)
  have ext2: "parseInt extraField = Some m \<and> 0 < m
            \<and> find (\<lambda>r. Some (id' r) = parseIntStr idParam) (readRooms w) = Some room
            \<and> (status room \<noteq> js ''Occupied'' \<or> \<not> endTimeSet room \<or> endTimePassed now room)
          \<longrightarrow> fst (extend now idParam codeField extraField w) =
                Response 400 (Message ''Room is not currently occupied'')"
    using assms by (auto simp: extend_def e f Let_def makeAvailable_def endTimeSet_def)
  show ?thesis
    using rel rel2 ext ext2 by blast
qed

theorem authorization_precedence_witness:
  "truthy (JStr (js ''0badc0de''))
   \<and> find (\<lambda>r. Some (id' r) = parseIntStr (js ''5'')) (readRooms bookedWorld) = Some bookedRoom
   \<and> status bookedRoom = js ''Occupied''
   \<and> endTimeSet bookedRoom \<and> \<not> endTimePassed 1000 bookedRoom
   \<and> map_option JStr (bookingCode bookedRoom) \<noteq> Some (JStr (js ''0badc0de''))
   \<and> release (js ''5'') (JStr (js ''0badc0de'')) bookedWorld =
        (Response 403 (Message ''Invalid booking code''), bookedWorld)
   \<and> parseInt (JNum 5) = Some 5
   \<and> fst (extend 1000 (js ''5'') (JStr (js ''0badc0de'')) (JNum 5) bookedWorld) =
        Response 403 (Message ''Invalid booking code'')
   \<and> find (\<lambda>r. Some (id' r) = parseIntStr (js ''5'')) (readRooms freeWorld) = Some studyRoom
   \<and> status studyRoom \<noteq> js ''Occupied''
   \<and> release (js ''5'') (JStr (js ''0badc0de'')) freeWorld =
        (Response 400 (Message ''Room is not occupied''), freeWorld)
   \<and> fst (extend 1000 (js ''5'') (JStr (js ''0badc0de'')) (JNum 5) freeWorld) =
        Response 400 (Message ''Room is not currently occupied'')
   \<and> endTimePassed 700000 bookedRoom
   \<and> fst (extend 700000 (js ''5'') (JStr (js ''0badc0de'')) (JNum 5) bookedWorld) =
        Response 400 (Message ''Room is not currently occupied'')"
proof -
  have t: "truthy (JStr (js ''0badc0de''))"
    by (simp add: truthy_def)
  have h: "find (\<lambda>r. Some (id' r) = parseIntStr (js ''5'')) (readRooms bookedWorld) =
             Some bookedRoom"
    "status bookedRoom = js ''Occupied''"
    "endTimeSet bookedRoom" "\<not> endTimePassed 1000 bookedRoom"
    "map_option JStr (bookingCode bookedRoom) \<noteq> Some (JStr (js ''0badc0de''))"
    "parseInt (JNum 5) = Some 5"
    "find (\<lambda>r. Some (id' r) = parseIntStr (js ''5'')) (readRooms freeWorld) = Some studyRoom"
    "status studyRoom \<noteq> js ''Occupied''"
    "endTimePassed 700000 bookedRoom"
    by (simp_all add: js_defs store_defs example_defs)
  show ?thesis
    using t h
      authorization_precedence [OF t, where idParam = "js ''5''" and w = bookedWorld
        and room = bookedRoom and extraField = "JNum 5" and m = 5 and now = 1000]
      authorization_precedence [OF t, where idParam = "js ''5''" and w = freeWorld
        and room = studyRoom and extraField = "JNum 5" and m = 5 and now = 1000]
      authorization_precedence [OF t, where idParam = "js ''5''" and w = bookedWorld
        and room = bookedRoom and extraField = "JNum 5" and m = 5 and now = 700000]
    by simp
qed

text \<open>
  C6. Code secrecy: the public projection of a room does not depend on its booking code;
  the outputs of the room listing and of the single-room read are the same whatever
  booking codes the stored rooms carry; the room embedded in a booking response does not
  depend on the code that was generated; and whenever two release requests, or two
  extend requests, are made with any two supplied codes on two stores whose rooms have the
  same public projections (so the stores differ in their booking codes at most) and
  both responses embed a room, the two embedded rooms are equal.
\<close>

theorem bookingCode_secrecy:
  "sanitizeRoom (r\<lparr>bookingCode := c\<rparr>) = sanitizeRoom r
   \<and> fst (listRooms qr now (w\<lparr>dataFile := Some (map (\<lambda>r. r\<lparr>bookingCode := f r\<rparr>) rs)\<rparr>))
       = fst (listRooms qr now (w\<lparr>dataFile := Some rs\<rparr>))
   \<and> fst (getRoom idParam now (w\<lparr>dataFile := Some (map (\<lambda>r. r\<lparr>bookingCode := f r\<rparr>) rs)\<rparr>))
       = fst (getRoom idParam now (w\<lparr>dataFile := Some rs\<rparr>))
   \<and> embeddedRoom (fst (book now rnd1 rf sn pf df w))
       = embeddedRoom (fst (book now rnd2 rf sn pf df w))
   \<and> (map sanitizeRoom (readRooms w1) = map sanitizeRoom (readRooms w2)
        \<and> embeddedRoom (fst (release idParam c1 w1)) = Some p1
        \<and> embeddedRoom (fst (release idParam c2 w2)) = Some p2
      \<longrightarrow> p1 = p2)
   \<and> (map sanitizeRoom (readRooms w1) = map sanitizeRoom (readRooms w2)
        \<and> embeddedRoom (fst (extend now idParam c1 extraField w1)) = Some q1
        \<and> embeddedRoom (fst (extend now idParam c2 extraField w2)) = Some q2
      \<longrightarrow> q1 = q2)"
proof -
  have rel: "map sanitizeRoom (readRooms w1) = map sanitizeRoom (readRooms w2)
        \<and> embeddedRoom (fst (release idParam c1 w1)) = Some p1
        \<and> embeddedRoom (fst (release idParam c2 w2)) = Some p2
      \<longrightarrow> p1 = p2"
    using release_public [of w1 w2 idParam c1 p1 c2 p2] by blast
  have ext: "map sanitizeRoom (readRooms w1) = map sanitizeRoom (readRooms w2)
        \<and> embeddedRoom (fst (extend now idParam c1 extraField w1)) = Some q1
        \<and> embeddedRoom (fst (extend now idParam c2 extraField w2)) = Some q2
      \<longrightarrow> q1 = q2"
    using extend_public [of w1 w2 now idParam c1 extraField q1 c2 q2] by blast
  show ?thesis
    using rel ext by (simp add: listRooms_codes getRoom_codes book_embedded_rnd)
qed

theorem bookingCode_secrecy_witness:
  "sanitizeRoom (bookedRoom\<lparr>bookingCode := Some (js ''0badc0de'')\<rparr>) = sanitizeRoom bookedRoom
   \<and> sanitizeRoom bookedRoom =
       \<lparr>id' = 5, name = js ''Study room'', status = js ''Occupied'', bookedBy = Some (js ''Ann''),
         purpose = Some (js ''study''), endTime = Some 600000\<rparr>
   \<and> fst (listRooms showInt 1000
        (bookedWorld\<lparr>dataFile :=
           Some (map (\<lambda>r. r\<lparr>bookingCode := Some (js ''0badc0de'')\<rparr>) [lounge, bookedRoom])\<rparr>))
       = fst (listRooms showInt 1000 (bookedWorld\<lparr>dataFile := Some [lounge, bookedRoom]\<rparr>))
   \<and> fst (getRoom (js ''5'') 1000
        (bookedWorld\<lparr>dataFile :=
           Some (map (\<lambda>r. r\<lparr>bookingCode := Some (js ''0badc0de'')\<rparr>) [lounge, bookedRoom])\<rparr>))
       = fst (getRoom (js ''5'') 1000 (bookedWorld\<lparr>dataFile := Some [lounge, bookedRoom]\<rparr>))
   \<and> fst (getRoom (js ''5'') 1000 (bookedWorld\<lparr>dataFile := Some [lounge, bookedRoom]\<rparr>))
       = Response 200
           (Room \<lparr>id' = 5, name = js ''Study room'', status = js ''Occupied'',
                  bookedBy = Some (js ''Ann''), purpose = Some (js ''study''),
                  endTime = Some 600000\<rparr>)
   \<and> embeddedRoom (fst (book 1000 [0xde, 0xad, 0xbe, 0xef] (JNum 5) (JStr (js ''Ann''))
                          (JStr (js ''study'')) (JNum 10) freeWorld))
       = embeddedRoom (fst (book 1000 [0, 0, 0, 0] (JNum 5) (JStr (js ''Ann''))
                              (JStr (js ''study'')) (JNum 10) freeWorld))
   \<and> map sanitizeRoom (readRooms bookedWorld) =
       map sanitizeRoom
         (readRooms (bookedWorld\<lparr>dataFile :=
            Some [lounge, bookedRoom\<lparr>bookingCode := Some (js ''0badc0de'')\<rparr>]\<rparr>))
   \<and> embeddedRoom (fst (release (js ''5'') (JStr (js ''deadbeef'')) bookedWorld)) =
       Some \<lparr>id' = 5, name = js ''Study room'', status = js ''Available'', bookedBy = None,
              purpose = None, endTime = None\<rparr>
   \<and> embeddedRoom (fst (release (js ''5'') (JStr (js ''0badc0de''))
        (bookedWorld\<lparr>dataFile :=
           Some [lounge, bookedRoom\<lparr>bookingCode := Some (js ''0badc0de'')\<rparr>]\<rparr>))) =
       Some \<lparr>id' = 5, name = js ''Study room'', status = js ''Available'', bookedBy = None,
              purpose = None, endTime = None\<rparr>
   \<and> embeddedRoom (fst (extend 1000 (js ''5'') (JStr (js ''deadbeef'')) (JNum 5) bookedWorld)) =
       Some \<lparr>id' = 5, name = js ''Study room'', status = js ''Occupied'',
              bookedBy = Some (js ''Ann''), purpose = Some (js ''study''),
              endTime = Some 900000\<rparr>
   \<and> embeddedRoom (fst (extend 1000 (js ''5'') (JStr (js ''0badc0de'')) (JNum 5)
        (bookedWorld\<lparr>dataFile :=
           Some [lounge, bookedRoom\<lparr>bookingCode := Some (js ''0badc0de'')\<rparr>]\<rparr>))) =
       Some \<lparr>id' = 5, name = js ''Study room'', status = js ''Occupied'',
              bookedBy = Some (js ''Ann''), purpose = Some (js ''study''),
              endTime = Some 900000\<rparr>"
proof -
  have pub: "map sanitizeRoom (readRooms bookedWorld) =
       map sanitizeRoom
         (readRooms (bookedWorld\<lparr>dataFile :=
            Some [lounge, bookedRoom\<lparr>bookingCode := Some (js ''0badc0de'')\<rparr>]\<rparr>))"
    by (simp add: store_defs example_defs)
  have rel: "embeddedRoom (fst (release (js ''5'') (JStr (js ''deadbeef'')) bookedWorld)) =
       Some \<lparr>id' = 5, name = js ''Study room'', status = js ''Available'', bookedBy = None,
              purpose = None, endTime = None\<rparr>"
    "embeddedRoom (fst (release (js ''5'') (JStr (js ''0badc0de''))
        (bookedWorld\<lparr>dataFile :=
           Some [lounge, bookedRoom\<lparr>bookingCode := Some (js ''0badc0de'')\<rparr>]\<rparr>))) =
       Some \<lparr>id' = 5, name = js ''Study room'', status = js ''Available'', bookedBy = None,
              purpose = None, endTime = None\<rparr>"
    by (simp_all add: embeddedRoom_def js_defs store_defs timer_defs handler_defs example_defs
          Let_def)
  have ext: "embeddedRoom (fst (extend 1000 (js ''5'') (JStr (js ''deadbeef'')) (JNum 5)
                 bookedWorld)) =
       Some \<lparr>id' = 5, name = js ''Study room'', status = js ''Occupied'',
              bookedBy = Some (js ''Ann''), purpose = Some (js ''study''),
              endTime = Some 900000\<rparr>"
    by (simp add: embeddedRoom_def js_defs num_defs store_defs timer_defs handler_defs
          example_defs Let_def)
  have hd: "sanitizeRoom bookedRoom =
       \<lparr>id' = 5, name = js ''Study room'', status = js ''Occupied'', bookedBy = Some (js ''Ann''),
         purpose = Some (js ''study''), endTime = Some 600000\<rparr>"
    "fst (getRoom (js ''5'') 1000 (bookedWorld\<lparr>dataFile := Some [lounge, bookedRoom]\<rparr>))
       = Response 200
           (Room \<lparr>id' = 5, name = js ''Study room'', status = js ''Occupied'',
                  bookedBy = Some (js ''Ann''), purpose = Some (js ''study''),
                  endTime = Some 600000\<rparr>)"
    by (simp_all add: js_defs store_defs handler_defs example_defs)
  have ext2: "embeddedRoom (fst (extend 1000 (js ''5'') (JStr (js ''0badc0de'')) (JNum 5)
        (bookedWorld\<lparr>dataFile :=
           Some [lounge, bookedRoom\<lparr>bookingCode := Some (js ''0badc0de'')\<rparr>]\<rparr>))) =
       Some \<lparr>id' = 5, name = js ''Study room'', status = js ''Occupied'',
              bookedBy = Some (js ''Ann''), purpose = Some (js ''study''),
              endTime = Some 900000\<rparr>"
    by (simp add: embeddedRoom_def js_defs num_defs store_defs timer_defs handler_defs
          example_defs Let_def)
  show ?thesis
    using pub rel ext ext2 hd
      bookingCode_secrecy [where r = bookedRoom and c = "Some (js ''0badc0de'')"
        and qr = showInt and now = 1000 and w = bookedWorld
        and f = "\<lambda>_. Some (js ''0badc0de'')" and rs = "[lounge, bookedRoom]"
        and idParam = "js ''5''" and ?w1.0 = bookedWorld
        and ?w2.0 = "bookedWorld\<lparr>dataFile :=
           Some [lounge, bookedRoom\<lparr>bookingCode := Some (js ''0badc0de'')\<rparr>]\<rparr>"
        and ?c1.0 = "JStr (js ''deadbeef'')" and ?c2.0 = "JStr (js ''0badc0de'')"
        and extraField = "JNum 5"
        and ?q1.0 = "\<lparr>id' = 5, name = js ''Study room'', status = js ''Occupied'',
              bookedBy = Some (js ''Ann''), purpose = Some (js ''study''),
              endTime = Some 900000\<rparr>"
        and ?q2.0 = "\<lparr>id' = 5, name = js ''Study room'', status = js ''Occupied'',
              bookedBy = Some (js ''Ann''), purpose = Some (js ''study''),
              endTime = Some 900000\<rparr>"
        and ?p1.0 = "\<lparr>id' = 5, name = js ''Study room'', status = js ''Available'',
              bookedBy = None, purpose = None, endTime = None\<rparr>"
        and ?p2.0 = "\<lparr>id' = 5, name = js ''Study room'', status = js ''Available'',
              bookedBy = None, purpose = None, endTime = None\<rparr>"]
      bookingCode_secrecy [where w = freeWorld and now = 1000
        and ?rnd1.0 = "[0xde, 0xad, 0xbe, 0xef]" and ?rnd2.0 = "[0, 0, 0, 0]"
        and rf = "JNum 5" and sn = "JStr (js ''Ann'')" and pf = "JStr (js ''study'')"
        and df = "JNum 10"]
    by simp
qed

text \<open>
  C7. Lazy expiry is idempotent: running \<open>expireRoomsIfNeeded\<close> a second time at the
  same instant on the result of the first run returns the same rooms and the same
  process state, and its loop reports no change, so nothing is written again.
\<close>

theorem expireRoomsIfNeeded_idempotent:
  "expireRoomsIfNeeded now (fst (expireRoomsIfNeeded now rooms w))
       (snd (expireRoomsIfNeeded now rooms w))
     = expireRoomsIfNeeded now rooms w
   \<and> expireLoop now (fst (expireRoomsIfNeeded now rooms w)) False
     = (fst (expireRoomsIfNeeded now rooms w), False)"
proof -
  obtain rs c where e: "expireLoop now rooms False = (rs, c)"
    by (cases "expireLoop now rooms False")
  have again: "expireLoop now rs False = (rs, False)"
    using expireLoop_again [of now rooms False] by (simp add: e)
  show ?thesis
    by (simp add: expireRoomsIfNeeded_def e again)
qed

theorem expireRoomsIfNeeded_idempotent_witness:
  "fst (expireRoomsIfNeeded 700000 (readRooms bookedWorld) bookedWorld) = [lounge, studyRoom]
   \<and> dataFile (snd (expireRoomsIfNeeded 700000 (readRooms bookedWorld) bookedWorld)) =
        Some [lounge, studyRoom]
   \<and> expireRoomsIfNeeded 700000
        (fst (expireRoomsIfNeeded 700000 (readRooms bookedWorld) bookedWorld))
        (snd (expireRoomsIfNeeded 700000 (readRooms bookedWorld) bookedWorld))
       = expireRoomsIfNeeded 700000 (readRooms bookedWorld) bookedWorld
   \<and> expireLoop 700000 [lounge, studyRoom] False = ([lounge, studyRoom], False)"
proof -
  have e: "fst (expireRoomsIfNeeded 700000 (readRooms bookedWorld) bookedWorld) =
             [lounge, studyRoom]"
    "dataFile (snd (expireRoomsIfNeeded 700000 (readRooms bookedWorld) bookedWorld)) =
       Some [lounge, studyRoom]"
    by (simp_all add: store_defs example_defs)
  show ?thesis
    using e expireRoomsIfNeeded_idempotent [of 700000 "readRooms bookedWorld" bookedWorld]
    by simp
qed

text \<open>
  C8, as stated, fails: the handlers judge \<^verbatim>\<open>parseInt(value, 10)\<close>, which keeps the
  integer prefix of its argument. A duration or an extension of \<open>''1.5''\<close> is not an
  integer, yet the booking is made for 1 minute and the extension is granted for 1
  minute, and the data file changes.
\<close>

theorem validation_atomicity_counterexample:
  "\<not> denotesInteger (JStr (js ''1.5''))
   \<and> fst (book 1000 [0xde, 0xad, 0xbe, 0xef] (JNum 5) (JStr (js ''Ann'')) (JStr (js ''study''))
           (JStr (js ''1.5'')) freeWorld) =
        Response 200
          (Booked ''Room booked successfully! Save your booking code.''
             \<lparr>id' = 5, name = js ''Study room'', status = js ''Occupied'',
               bookedBy = Some (js ''Ann''), purpose = Some (js ''study''),
               endTime = Some 61000\<rparr>
             ''deadbeef'')
   \<and> dataFile (snd (book 1000 [0xde, 0xad, 0xbe, 0xef] (JNum 5) (JStr (js ''Ann''))
                      (JStr (js ''study'')) (JStr (js ''1.5'')) freeWorld)) =
        Some [lounge, bookedRoom\<lparr>endTime := Some 61000\<rparr>]
   \<and> dataFile freeWorld = Some [lounge, studyRoom]
   \<and> fst (extend 1000 (js ''5'') (JStr (js ''deadbeef'')) (JStr (js ''1.5'')) bookedWorld) =
        Response 200 (Changed ''Extended by 1 minutes''
          \<lparr>id' = 5, name = js ''Study room'', status = js ''Occupied'',
            bookedBy = Some (js ''Ann''), purpose = Some (js ''study''),
            endTime = Some 660000\<rparr>)
   \<and> dataFile (snd (extend 1000 (js ''5'') (JStr (js ''deadbeef'')) (JStr (js ''1.5''))
                      bookedWorld)) =
        Some [lounge, bookedRoom\<lparr>endTime := Some 660000\<rparr>]"
proof -
  have "\<not> denotesInteger (JStr (js ''1.5''))"
    by (simp add: denotesInteger_def isDigit_def trim_def isWhite_def js_def)
  then show ?thesis
    by (simp add: js_defs num_defs store_defs timer_defs handler_defs example_defs Let_def)
qed

text \<open>
  C8, amended. Validation atomicity on the parsed value: a book request whose duration,
  and an extend request whose \<open>extraMinutes\<close>, parses under \<^verbatim>\<open>parseInt(value, 10)\<close> to
  no number, to zero or to a negative integer is answered 400 and leaves the whole
  process state, data file and timers, as it was.
\<close>

theorem validation_atomicity:
  "((case parseInt durationField of None \<Rightarrow> True | Some d \<Rightarrow> d \<le> 0)
      \<longrightarrow> book now rnd roomIdField studentName purposeField durationField w =
            (Response 400 (Message ''Invalid roomId or duration''), w))
   \<and> ((case parseInt extraField of None \<Rightarrow> True | Some m \<Rightarrow> m \<le> 0)
      \<longrightarrow> extend now idParam codeField extraField w =
            (Response 400
               (Message (if truthy codeField then ''extraMinutes must be a positive integer''
                         else ''bookingCode required'')), w))"
  by (simp add: book_def extend_def split: option.splits)

theorem validation_atomicity_witness:
  "parseInt (JNum 0) = Some 0 \<and> parseInt (JStr (js ''abc'')) = None
   \<and> parseInt (JStr (js ''  -12abc'')) = Some (- 12)
   \<and> book 1000 [0xde, 0xad, 0xbe, 0xef] (JNum 5) (JStr (js ''Ann'')) (JStr (js ''study''))
       (JNum 0) freeWorld =
        (Response 400 (Message ''Invalid roomId or duration''), freeWorld)
   \<and> book 1000 [0xde, 0xad, 0xbe, 0xef] (JNum 5) (JStr (js ''Ann'')) (JStr (js ''study''))
       (JStr (js ''abc'')) freeWorld =
        (Response 400 (Message ''Invalid roomId or duration''), freeWorld)
   \<and> extend 1000 (js ''5'') (JStr (js ''deadbeef'')) (JStr (js ''  -12abc'')) bookedWorld =
        (Response 400 (Message ''extraMinutes must be a positive integer''), bookedWorld)
   \<and> extend 1000 (js ''5'') (JStr (js ''deadbeef'')) (JStr (js ''abc'')) bookedWorld =
        (Response 400 (Message ''extraMinutes must be a positive integer''), bookedWorld)"
proof -
  have h: "parseInt (JNum 0) = Some 0" "parseInt (JStr (js ''abc'')) = None"
    "parseInt (JStr (js ''  -12abc'')) = Some (- 12)" "truthy (JStr (js ''deadbeef''))"
    by (simp_all add: js_defs)
  show ?thesis
    using h
      validation_atomicity [where durationField = "JNum 0" and now = 1000
        and rnd = "[0xde, 0xad, 0xbe, 0xef]" and roomIdField = "JNum 5"
        and studentName = "JStr (js ''Ann'')" and purposeField = "JStr (js ''study'')"
        and w = freeWorld]
      validation_atomicity [where durationField = "JStr (js ''abc'')" and now = 1000
        and rnd = "[0xde, 0xad, 0xbe, 0xef]" and roomIdField = "JNum 5"
        and studentName = "JStr (js ''Ann'')" and purposeField = "JStr (js ''study'')"
        and w = freeWorld]
      validation_atomicity [where extraField = "JStr (js ''  -12abc'')" and now = 1000
        and idParam = "js ''5''" and codeField = "JStr (js ''deadbeef'')" and w = bookedWorld]
      validation_atomicity [where extraField = "JStr (js ''abc'')" and now = 1000
        and idParam = "js ''5''" and codeField = "JStr (js ''deadbeef'')" and w = bookedWorld]
    by simp
qed

text \<open>
  C9. Single timer per room. The callback of a timer that fires before the end time
  calls \<open>scheduleAutoRelease\<close>, which records the new timer in \<open>autoReleaseTimers\<close>, and
  then removes that very entry with its closing \<^verbatim>\<open>autoReleaseTimers.delete(roomId)\<close>. The
  new timer stays pending but is no longer recorded, so the next scheduling does not
  cancel it and a release does not either. Below, a booking of 40000 minutes made at
  the instant 0 gets a delay above \<open>2 ^ 31 - 1\<close> milliseconds, which the runtime replaces
  by 1; the timer fires at the instant 1, and after an extension two timeouts are pending
  for room 5.
\<close>

theorem duplicate_timers_after_reschedule:
  "longBooking = snd (book 0 [0xde, 0xad, 0xbe, 0xef] (JNum 5) (JStr (js ''Ann''))
                        (JStr (js ''study'')) (JNum 40000) freeWorld)
   \<and> readRooms longBooking = [lounge, bookedRoom\<lparr>endTime := Some 2400000000\<rparr>]
   \<and> pendingTimeouts longBooking = [\<lparr>handle = 0, forRoom = 5, due = 1\<rparr>]
   \<and> autoReleaseTimers longBooking 5 = Some 0
   \<and> afterEarlyFire = fireTimeout 1 0 longBooking
   \<and> pendingTimeouts afterEarlyFire = [\<lparr>handle = 1, forRoom = 5, due = 2\<rparr>]
   \<and> autoReleaseTimers afterEarlyFire 5 = None
   \<and> afterExtend = snd (extend 1 (js ''5'') (JStr (js ''deadbeef'')) (JNum 10) afterEarlyFire)
   \<and> fst (extend 1 (js ''5'') (JStr (js ''deadbeef'')) (JNum 10) afterEarlyFire) =
        Response 200 (Changed ''Extended by 10 minutes''
          \<lparr>id' = 5, name = js ''Study room'', status = js ''Occupied'',
            bookedBy = Some (js ''Ann''), purpose = Some (js ''study''),
            endTime = Some 2400600000\<rparr>)
   \<and> pendingTimeouts afterExtend =
        [\<lparr>handle = 1, forRoom = 5, due = 2\<rparr>, \<lparr>handle = 2, forRoom = 5, due = 2\<rparr>]
   \<and> length (filter (\<lambda>t. forRoom t = 5) (pendingTimeouts afterExtend)) = 2
   \<and> fst (release (js ''5'') (JStr (js ''deadbeef'')) afterEarlyFire) =
        Response 200 (Changed ''Room released successfully''
          \<lparr>id' = 5, name = js ''Study room'', status = js ''Available'', bookedBy = None,
            purpose = None, endTime = None\<rparr>)
   \<and> pendingTimeouts (snd (release (js ''5'') (JStr (js ''deadbeef'')) afterEarlyFire)) =
        [\<lparr>handle = 1, forRoom = 5, due = 2\<rparr>]"
proof -
  have booked: "readRooms longBooking = [lounge, bookedRoom\<lparr>endTime := Some 2400000000\<rparr>]"
    "pendingTimeouts longBooking = [\<lparr>handle = 0, forRoom = 5, due = 1\<rparr>]"
    "autoReleaseTimers longBooking 5 = Some 0"
    by (simp_all add: longBooking_eq readRooms_def)
  have fired: "pendingTimeouts afterEarlyFire = [\<lparr>handle = 1, forRoom = 5, due = 2\<rparr>]"
    "autoReleaseTimers afterEarlyFire 5 = None"
    by (simp_all add: afterEarlyFire_eq)
  have extended: "fst (extend 1 (js ''5'') (JStr (js ''deadbeef'')) (JNum 10) afterEarlyFire) =
        Response 200 (Changed ''Extended by 10 minutes''
          \<lparr>id' = 5, name = js ''Study room'', status = js ''Occupied'',
            bookedBy = Some (js ''Ann''), purpose = Some (js ''study''),
            endTime = Some 2400600000\<rparr>)"
    by (simp add: afterEarlyFire_eq js_defs num_defs store_defs timer_defs handler_defs
          example_defs Let_def)
  have two: "pendingTimeouts afterExtend =
        [\<lparr>handle = 1, forRoom = 5, due = 2\<rparr>, \<lparr>handle = 2, forRoom = 5, due = 2\<rparr>]"
    "length (filter (\<lambda>t. forRoom t = 5) (pendingTimeouts afterExtend)) = 2"
    by (simp_all add: afterExtend_eq)
  have released: "fst (release (js ''5'') (JStr (js ''deadbeef'')) afterEarlyFire) =
        Response 200 (Changed ''Room released successfully''
          \<lparr>id' = 5, name = js ''Study room'', status = js ''Available'', bookedBy = None,
            purpose = None, endTime = None\<rparr>)"
    "pendingTimeouts (snd (release (js ''5'') (JStr (js ''deadbeef'')) afterEarlyFire)) =
        [\<lparr>handle = 1, forRoom = 5, due = 2\<rparr>]"
    by (simp_all add: afterEarlyFire_eq js_defs store_defs timer_defs handler_defs example_defs
          Let_def)
  show ?thesis
    by (intro conjI booked fired extended two released longBooking_def afterEarlyFire_def
          afterExtend_def)
qed

theorem duplicate_timers_after_reschedule_witness:
  "1 < length (filter (\<lambda>t. forRoom t = 5) (pendingTimeouts afterExtend))"
  using duplicate_timers_after_reschedule by simp

text \<open>
  C10. Fail-open reads: when the data file is missing or does not parse, \<open>readRooms\<close>
  returns the empty list, the listing is empty, and a single-room read, a valid book
  request, a valid extend request and a release request are all answered 404 "Room
  not found", with the process state unchanged.
\<close>

theorem fail_open_reads:
  assumes "dataFile w = None"
  shows "readRooms w = []
       \<and> listRooms qr now w = (Response 200 (Rooms []), w)
       \<and> getRoom idParam now w = (Response 404 (Message ''Room not found''), w)
       \<and> (parseInt roomIdField = Some roomId \<and> parseInt durationField = Some d \<and> 0 < d
            \<and> nonBlankString studentName \<and> nonBlankString purposeField
          \<longrightarrow> book now rnd roomIdField studentName purposeField durationField w =
                (Response 404 (Message ''Room not found''), w))
       \<and> (truthy codeField \<and> parseInt extraField = Some m \<and> 0 < m
          \<longrightarrow> extend now idParam codeField extraField w =
                (Response 404 (Message ''Room not found''), w))
       \<and> (truthy codeField
          \<longrightarrow> release idParam codeField w = (Response 404 (Message ''Room not found''), w))"
proof -
  have r: "readRooms w = []"
    using assms by (simp add: readRooms_def)
  have e: "expireRoomsIfNeeded now [] w = ([], w)"
    by (simp add: expireRoomsIfNeeded_def)
  show ?thesis
    by (simp add: r e listRooms_def getRoom_def book_def extend_def release_def)
qed

theorem fail_open_reads_witness:
  "dataFile unreadableWorld = None
   \<and> readRooms unreadableWorld = []
   \<and> parseInt (JNum 5) = Some 5 \<and> parseInt (JNum 10) = Some 10
   \<and> nonBlankString (JStr (js ''Ann'')) \<and> nonBlankString (JStr (js ''study''))
   \<and> truthy (JStr (js ''deadbeef''))
   \<and> listRooms showInt 1000 unreadableWorld = (Response 200 (Rooms []), unreadableWorld)
   \<and> getRoom (js ''5'') 1000 unreadableWorld =
        (Response 404 (Message ''Room not found''), unreadableWorld)
   \<and> book 1000 [0xde, 0xad, 0xbe, 0xef] (JNum 5) (JStr (js ''Ann'')) (JStr (js ''study''))
       (JNum 10) unreadableWorld =
        (Response 404 (Message ''Room not found''), unreadableWorld)
   \<and> extend 1000 (js ''5'') (JStr (js ''deadbeef'')) (JNum 10) unreadableWorld =
        (Response 404 (Message ''Room not found''), unreadableWorld)
   \<and> release (js ''5'') (JStr (js ''deadbeef'')) unreadableWorld =
        (Response 404 (Message ''Room not found''), unreadableWorld)"
proof -
  have h: "dataFile unreadableWorld = None"
    by (simp add: unreadableWorld_def)
  have g: "parseInt (JNum 5) = Some 5" "parseInt (JNum 10) = Some 10"
    "nonBlankString (JStr (js ''Ann''))" "nonBlankString (JStr (js ''study''))"
    "truthy (JStr (js ''deadbeef''))"
    by (simp_all add: js_defs)
  show ?thesis
    using h g
      fail_open_reads [OF h, where qr = showInt and now = 1000 and idParam = "js ''5''"
        and roomIdField = "JNum 5" and roomId = 5 and durationField = "JNum 10" and d = 10
        and studentName = "JStr (js ''Ann'')" and purposeField = "JStr (js ''study'')"
        and rnd = "[0xde, 0xad, 0xbe, 0xef]" and codeField = "JStr (js ''deadbeef'')"
        and extraField = "JNum 10" and m = 10]
    by simp
qed

end
